theory Spec2Isabelle
  imports Complex_Main
begin

section \<open>The demonstration notebook \<^verbatim>\<open>experiments/demo/demo.ipynb\<close>\<close>

text \<open>
  The notebook builds a synthetic fabric profile for an ice column (arrays \<^verbatim>\<open>z\<close>,
  \<^verbatim>\<open>c2\<close>, \<^verbatim>\<open>lambdavec\<close>, \<^verbatim>\<open>nlm\<close>), hands it to the layer-stack library and plots
  the result. The embedding follows the two code cells statement by statement.

  Numbers: Python's \<^verbatim>\<open>int\<close> is \<open>int\<close>; numpy's \<^verbatim>\<open>float64\<close> and \<^verbatim>\<open>complex128\<close> are
  idealised as the exact fields \<open>real\<close> and \<open>complex\<close>, so every arithmetic statement
  below is a statement of exact arithmetic, with no rounding.

  Arrays: a one-dimensional array is a list, an array of shape \<open>(N, 6)\<close> a list of
  rows, an array of shape \<open>(N, 3, 3)\<close> a list of matrices (lists of rows). Indexing is
  guarded: an index outside the array is \<open>None\<close>, which the script turns into
  \<open>IndexError\<close>.
\<close>

subsection \<open>Faults\<close>

text \<open>
  An exception is a value. \<open>IndexError\<close>, \<open>ValueError\<close>, \<open>NameError\<close>, \<open>TypeError\<close> and
  \<open>AttributeError\<close> are raised by the notebook's own statements (an index out of
  range; shapes that cannot be broadcast, or a sequence of the wrong length to unpack;
  a name read before it is bound; a value that is no sequence or no number where one
  is needed; an attribute that is not there). \<open>External e\<close> is the exception \<open>e\<close> raised
  inside a call or an import of the layer-stack or plotting library.
\<close>

datatype 'e fault =
  IndexError | ValueError | NameError | TypeError | AttributeError | External 'e

text \<open>Sequencing of statements: the first exception ends the script.\<close>

definition bnd :: "'x + 'a \<Rightarrow> ('a \<Rightarrow> 'x + 'b) \<Rightarrow> 'x + 'b" where
  "bnd m k = (case m of Inl e \<Rightarrow> Inl e | Inr v \<Rightarrow> k v)"

text \<open>A call of a library routine: its exception propagates, tagged with its origin.\<close>

definition call :: "'e + 'a \<Rightarrow> 'e fault + 'a" where
  "call r = (case r of Inl e \<Rightarrow> Inl (External e) | Inr v \<Rightarrow> Inr v)"

subsection \<open>The numpy primitives the notebook uses\<close>

text \<open>
  \<^verbatim>\<open>np.linspace(start, stop, num)\<close> with the default \<^verbatim>\<open>endpoint=True\<close>, as numpy
  computes it: \<^verbatim>\<open>div = num - 1\<close>, \<^verbatim>\<open>delta = stop - start\<close>,
  \<^verbatim>\<open>y = arange(0, num)\<close>; when \<^verbatim>\<open>div > 0\<close> the step is \<^verbatim>\<open>delta / div\<close> and
  \<^verbatim>\<open>y = y * step\<close> (or \<^verbatim>\<open>y / div * delta\<close> when the step is zero), otherwise
  \<^verbatim>\<open>y = y * delta\<close>; then \<^verbatim>\<open>y += start\<close>, and for \<^verbatim>\<open>num > 1\<close> the last entry is
  overwritten with \<^verbatim>\<open>stop\<close>. A negative \<^verbatim>\<open>num\<close> is excluded by the type.
\<close>

definition linspace :: "real \<Rightarrow> real \<Rightarrow> nat \<Rightarrow> real list" where
  "linspace start stop num =
     (let dv = int num - 1;
          delta = stop - start;
          y0 = map real [0..<num];
          y1 = (if dv > 0
                then (let step = delta / real_of_int dv
                      in if step = 0 then map (\<lambda>v. v / real_of_int dv * delta) y0
                         else map (\<lambda>v. v * step) y0)
                else map (\<lambda>v. v * delta) y0);
          y2 = map (\<lambda>v. v + start) y1
      in if num > 1 then y2[num - 1 := stop] else y2)"

text \<open>
  An index as Python reads it: \<open>0 \<le> i < n\<close> counts from the front, \<open>-n \<le> i < 0\<close> from
  the back, anything else is out of range.
\<close>

definition norm_index :: "nat \<Rightarrow> int \<Rightarrow> nat option" where
  "norm_index n i =
     (if 0 \<le> i \<and> i < int n then Some (nat i)
      else if - int n \<le> i \<and> i < 0 then Some (nat (i + int n))
      else None)"

text \<open>\<^verbatim>\<open>xs[i]\<close> and \<^verbatim>\<open>xs[i] = v\<close>\<close>

definition getitem :: "'a list \<Rightarrow> int \<Rightarrow> 'a option" where
  "getitem xs i = map_option (\<lambda>k. xs ! k) (norm_index (length xs) i)"

definition setitem :: "'a list \<Rightarrow> int \<Rightarrow> 'a \<Rightarrow> 'a list option" where
  "setitem xs i v = map_option (\<lambda>k. xs[k := v]) (norm_index (length xs) i)"

text \<open>\<^verbatim>\<open>m[j, k] = v\<close> on a matrix\<close>

definition setitem2 :: "'a list list \<Rightarrow> int \<Rightarrow> int \<Rightarrow> 'a \<Rightarrow> 'a list list option" where
  "setitem2 m j k v =
     (case getitem m j of None \<Rightarrow> None
      | Some row \<Rightarrow> (case setitem row k v of None \<Rightarrow> None
          | Some row' \<Rightarrow> setitem m j row'))"

text \<open>An out-of-range index raises \<open>IndexError\<close>.\<close>

definition guard :: "'a option \<Rightarrow> 'e fault + 'a" where
  "guard r = (case r of None \<Rightarrow> Inl IndexError | Some v \<Rightarrow> Inr v)"

text \<open>\<^verbatim>\<open>np.zeros((n, m))\<close> and \<^verbatim>\<open>np.zeros((n, m, k))\<close>\<close>

definition zeros2 :: "nat \<Rightarrow> nat \<Rightarrow> 'a::zero list list" where
  "zeros2 n m = replicate n (replicate m 0)"

definition zeros3 :: "nat \<Rightarrow> nat \<Rightarrow> nat \<Rightarrow> 'a::zero list list list" where
  "zeros3 n m k = replicate n (zeros2 m k)"

text \<open>
  Broadcasting a one-dimensional value to \<open>n\<close> entries: a value of \<open>n\<close> entries is taken
  as it is, a value of one entry is repeated, any other shape is refused.
\<close>

definition broadcast :: "nat \<Rightarrow> 'a list \<Rightarrow> 'a list option" where
  "broadcast n v =
     (if length v = n then Some v
      else if length v = 1 then Some (replicate n (hd v))
      else None)"

text \<open>
  \<^verbatim>\<open>a[:, j, k] = v\<close> on an array of matrices: the indices \<open>j\<close>, \<open>k\<close> are checked
  first, then \<open>v\<close> is broadcast along the leading axis and entry \<open>(j, k)\<close> of the
  \<open>i\<close>-th matrix becomes \<open>v[i]\<close>. The indices are checked against each matrix of the
  array, so an array of no matrices accepts any \<open>j\<close>, \<open>k\<close>; the notebook's array has
  \<open>N_layers = 100\<close> matrices.
\<close>

definition assign_entries ::
  "'a::zero list list list \<Rightarrow> int \<Rightarrow> int \<Rightarrow> 'a list \<Rightarrow> 'e fault + 'a list list list" where
  "assign_entries a j k v =
     (case those (map (\<lambda>m. setitem2 m j k 0) a) of None \<Rightarrow> Inl IndexError
      | Some _ \<Rightarrow>
         (case broadcast (length a) v of None \<Rightarrow> Inl ValueError
          | Some w \<Rightarrow> guard (those (map2 (\<lambda>m x. setitem2 m j k x) a w))))"

text \<open>
  \<^verbatim>\<open>a[i, :] = v\<close> on a two-dimensional array: \<open>v\<close> is broadcast to the width of
  row \<open>i\<close>.
\<close>

definition assign_row :: "'a list list \<Rightarrow> int \<Rightarrow> 'a list \<Rightarrow> 'e fault + 'a list list" where
  "assign_row a i v =
     (case getitem a i of None \<Rightarrow> Inl IndexError
      | Some row \<Rightarrow>
         (case broadcast (length row) v of None \<Rightarrow> Inl ValueError
          | Some w \<Rightarrow> guard (setitem a i w)))"

text \<open>
  \<^verbatim>\<open>a[i, start:] = v\<close> with a scalar \<open>v\<close> and \<open>start \<ge> 0\<close>: the entries of row \<open>i\<close>
  from column \<open>start\<close> on become \<open>v\<close>. A slice never raises; a \<open>start\<close> beyond the row
  selects nothing.
\<close>

definition assign_row_from :: "'a list list \<Rightarrow> int \<Rightarrow> nat \<Rightarrow> 'a \<Rightarrow> 'e fault + 'a list list" where
  "assign_row_from a i start v =
     (case getitem a i of None \<Rightarrow> Inl IndexError
      | Some row \<Rightarrow>
         guard (setitem a i (take start row @ replicate (length row - start) v)))"

text \<open>\<^verbatim>\<open>np.arange(n)\<close>\<close>

definition arange :: "nat \<Rightarrow> int list" where
  "arange n = map int [0..<n]"

text \<open>\<^verbatim>\<open>int(x)\<close> on a float truncates towards zero.\<close>

definition py_int :: "real \<Rightarrow> int" where
  "py_int x = (if 0 \<le> x then \<lfloor>x\<rfloor> else \<lceil>x\<rceil>)"

text \<open>\<^verbatim>\<open>np.deg2rad(x)\<close>\<close>

definition deg2rad :: "real \<Rightarrow> real" where
  "deg2rad x = x * pi / 180"

subsection \<open>The layer-stack and plotting libraries\<close>

text \<open>
  The modules \<^verbatim>\<open>layerstack\<close> and \<^verbatim>\<open>plottools\<close> are imported from \<^verbatim>\<open>../../lib\<close> and
  are not part of the notebook. Their routines are parameters of the embedding: each
  is a function that returns a value (\<open>Inr\<close>) or raises an exception of the library's
  type \<open>'e\<close> (\<open>Inl\<close>). The routines do not change the arrays they are given.

  The embedding takes the library at two levels. For the arrays of lines 37 to 52,
  \<^verbatim>\<open>c2_to_nlm\<close> is taken with the result it is written for: the six spectral
  coefficients of one structure tensor (six is the row width \<^verbatim>\<open>nlm\<close> is allocated
  with) and the table \<^verbatim>\<open>lm\<close>, of an opaque type \<open>'lm\<close>.
\<close>

type_synonym coeffs = "complex \<times> complex \<times> complex \<times> complex \<times> complex \<times> complex"

fun row_of :: "coeffs \<Rightarrow> complex list" where
  "row_of (a, b, c, d, e, f) = [a, b, c, d, e, f]"

type_synonym ('e, 'lm) c2_to_nlm = "real list list \<Rightarrow> 'e + (coeffs \<times> 'lm)"

text \<open>
  For the notebook as a whole, nothing is known of what the library hands back, as in
  Python. A value is a number (whatever numpy reads as one), a sequence (a tuple, a
  list, an array or any other value that can be iterated, of any length and nesting,
  given by its items) or any other object, of an opaque type \<open>'o\<close>, which is neither a
  number nor iterable.
\<close>

datatype 'o pyval = Scalar complex | Seq "'o pyval list" | Object 'o

text \<open>
  Unpacking a value into two, into five, and into a first target and a starred rest
  (\<^verbatim>\<open>a, b = v\<close>, \<^verbatim>\<open>(a, b, c, d, e) = v\<close>, \<^verbatim>\<open>(a, *_) = v\<close>): a sequence of the wrong
  length raises \<open>ValueError\<close>, a value that is no sequence \<open>TypeError\<close>.
\<close>

fun unpack2 :: "'o pyval \<Rightarrow> 'e fault + ('o pyval \<times> 'o pyval)" where
  "unpack2 (Seq [a, b]) = Inr (a, b)"
| "unpack2 (Seq _) = Inl ValueError"
| "unpack2 _ = Inl TypeError"

fun unpack5 ::
  "'o pyval \<Rightarrow> 'e fault + ('o pyval \<times> 'o pyval \<times> 'o pyval \<times> 'o pyval \<times> 'o pyval)" where
  "unpack5 (Seq [a, b, c, d, e]) = Inr (a, b, c, d, e)"
| "unpack5 (Seq _) = Inl ValueError"
| "unpack5 _ = Inl TypeError"

fun unpack_first :: "'o pyval \<Rightarrow> 'e fault + 'o pyval" where
  "unpack_first (Seq (a # _)) = Inr a"
| "unpack_first (Seq []) = Inl ValueError"
| "unpack_first _ = Inl TypeError"

text \<open>The results of a list of steps, or the first exception among them.\<close>

fun collect :: "('x + 'a) list \<Rightarrow> 'x + 'a list" where
  "collect [] = Inr []"
| "collect (r # rs) = bnd r (\<lambda>v. bnd (collect rs) (\<lambda>vs. Inr (v # vs)))"

text \<open>
  A value as numpy reads it when it is assigned into a complex array: its shape and
  its entries in row-major order. A number has the empty shape; a sequence of \<open>n\<close>
  values of one shape \<open>s\<close> has the shape \<open>n # s\<close>; a sequence of values of different
  shapes raises \<open>ValueError\<close>, and an object that is no number \<open>TypeError\<close>.
\<close>

fun entries :: "'o pyval \<Rightarrow> 'e fault + (nat list \<times> complex list)" where
  "entries (Scalar c) = Inr ([], [c])"
| "entries (Object ob) = Inl TypeError"
| "entries (Seq vs) =
     bnd (collect (map entries vs))
       (\<lambda>es. case es of
          [] \<Rightarrow> Inr ([0], [])
        | (s, d) # _ \<Rightarrow>
            if list_all (\<lambda>e. fst e = s) es then Inr (length es # s, concat (map snd es))
            else Inl ValueError)"

text \<open>
  The value of an assignment to one row, \<^verbatim>\<open>a[i, :] = v\<close>: numpy drops leading axes of
  length one, and refuses a value with any other leading axis. What is left is
  broadcast to the width of the row by \<open>assign_row\<close>.
\<close>

definition as_row :: "'o pyval \<Rightarrow> 'e fault + complex list" where
  "as_row v =
     bnd (entries v)
       (\<lambda>(shape, d). if list_all (\<lambda>n. n = 1) (butlast shape) then Inr d else Inl ValueError)"

text \<open>
  Reading a name that an import should have bound, and reading an attribute of a
  value: \<open>None\<close> is a name that is not bound, or an attribute that is not there.
\<close>

definition bound :: "'a option \<Rightarrow> 'e fault + 'a" where
  "bound r = (case r of None \<Rightarrow> Inl NameError | Some v \<Rightarrow> Inr v)"

definition attribute :: "'a option \<Rightarrow> 'e fault + 'a" where
  "attribute r = (case r of None \<Rightarrow> Inl AttributeError | Some v \<Rightarrow> Inr v)"

text \<open>
  The library as the notebook meets it.
  \<^item> \<open>import_numpy\<close>, \<open>import_c2_to_nlm\<close>, \<open>import_plot_ODF\<close>, \<open>import_layerstack\<close>,
    \<open>import_plottools\<close>: the statements \<^verbatim>\<open>import numpy as np\<close>,
    \<^verbatim>\<open>from layerstack import c2_to_nlm\<close>, \<^verbatim>\<open>from plottools import plot_ODF\<close>,
    \<^verbatim>\<open>from layerstack import *\<close> and \<^verbatim>\<open>from plottools import *\<close>, each of which
    succeeds or raises. (\<^verbatim>\<open>import sys\<close> is a built-in module and
    \<^verbatim>\<open>sys.path.insert\<close> a list operation; neither raises.)
  \<^item> \<open>c2_to_nlm\<close>, \<open>plot_ODF\<close>: the routines the first cell imports by name; an import
    by name that succeeds has bound the name.
  \<^item> \<open>LayerStack\<close>, \<open>plot_returns\<close>: the names the second cell expects from the star
    imports; \<open>None\<close> when they bind no such name.
  \<^item> \<open>get_returns\<close>, \<open>get_eigenbasis\<close>, \<open>stack_z\<close>: the attributes
    \<^verbatim>\<open>lstack.get_returns\<close>, \<^verbatim>\<open>lstack.get_eigenbasis\<close>, \<^verbatim>\<open>lstack.z\<close> of the value the
    constructor handed back; \<open>plt_show\<close>: the attribute \<^verbatim>\<open>plt.show\<close> of the first value
    \<^verbatim>\<open>plot_returns\<close> handed back. \<open>None\<close> when the value has no such attribute;
    \<open>get_eigenbasis\<close> and \<open>plt_show\<close>, called without arguments, are given by what the
    call does.
  The star imports are taken to rebind none of the names the notebook has bound itself
  (\<^verbatim>\<open>nlm\<close>, \<^verbatim>\<open>z\<close>, \<^verbatim>\<open>np\<close> and the scalars).
\<close>

record ('e, 'o) library =
  import_numpy :: "'e + unit"
  import_c2_to_nlm :: "'e + unit"
  c2_to_nlm :: "real list list \<Rightarrow> 'e + 'o pyval"
  import_plot_ODF :: "'e + unit"
  plot_ODF :: "complex list \<Rightarrow> 'o pyval \<Rightarrow> int \<Rightarrow> int \<Rightarrow> 'e + 'o pyval"
  import_layerstack :: "'e + unit"
  import_plottools :: "'e + unit"
  LayerStack ::
    "(complex list list \<Rightarrow> real list \<Rightarrow> int \<Rightarrow> real list \<Rightarrow> real list \<Rightarrow> real list \<Rightarrow>
      'e + 'o pyval) option"
  get_returns :: "'o pyval \<Rightarrow> (real \<Rightarrow> real \<Rightarrow> real \<Rightarrow> 'e + 'o pyval) option"
  get_eigenbasis :: "'o pyval \<Rightarrow> ('e + 'o pyval) option"
  stack_z :: "'o pyval \<Rightarrow> 'o pyval option"
  plot_returns ::
    "('o pyval \<Rightarrow> 'o pyval \<Rightarrow> 'o pyval \<Rightarrow> 'o pyval \<Rightarrow> 'e + 'o pyval) option"
  plt_show :: "'o pyval \<Rightarrow> ('e + 'o pyval) option"

subsection \<open>Cell \<^verbatim>\<open>e60790ff\<close>: the structure tensor profile\<close>

definition H :: int where
  "H = 2000"

definition N_layers :: nat where
  "N_layers = 100"

text \<open>\<^verbatim>\<open>z = np.linspace(0,-H, N_layers)\<close>\<close>

definition z :: "real list" where
  "z = linspace 0 (- real_of_int H) N_layers"

text \<open>\<^verbatim>\<open>lambdavec = np.linspace(1.5/3, 0.9, N_layers)\<close>\<close>

definition lambdavec :: "real list" where
  "lambdavec = linspace (1.5 / 3) 0.9 N_layers"

text \<open>
  \<^verbatim>\<open>c2 = np.zeros((N_layers,3,3))\<close> followed by the three assignments
  \<^verbatim>\<open>c2[:,0,0] = 3/10*(1-lambdavec)\<close>, \<^verbatim>\<open>c2[:,1,1] = 7/10*(1-lambdavec)\<close> and
  \<^verbatim>\<open>c2[:,2,2] = lambdavec\<close>.
\<close>

definition c2 :: "'e fault + real list list list" where
  "c2 =
     bnd (assign_entries (zeros3 N_layers 3 3) 0 0 (map (\<lambda>l. 3 / 10 * (1 - l)) lambdavec))
       (\<lambda>a. bnd (assign_entries a 1 1 (map (\<lambda>l. 7 / 10 * (1 - l)) lambdavec))
         (\<lambda>a. assign_entries a 2 2 lambdavec))"

text \<open>
  The conversion loop
  \<^verbatim>\<open>for ii in np.arange(N_layers): nlm[ii,:], lm = c2_to_nlm(c2[ii,:,:])\<close>,
  run over the list of indices, on the variables \<^verbatim>\<open>nlm\<close> and \<^verbatim>\<open>lm\<close> (unbound before
  the first pass).
\<close>

fun convert_loop ::
  "('e, 'lm) c2_to_nlm \<Rightarrow> real list list list \<Rightarrow> int list \<Rightarrow>
   complex list list \<times> 'lm option \<Rightarrow> 'e fault + (complex list list \<times> 'lm option)" where
  "convert_loop f c [] s = Inr s"
| "convert_loop f c (ii # rest) (nlm, lm) =
     bnd (guard (getitem c ii))
       (\<lambda>m. bnd (call (f m))
         (\<lambda>(row, lm'). bnd (assign_row nlm ii (row_of row))
           (\<lambda>nlm'. convert_loop f c rest (nlm', Some lm'))))"

text \<open>
  The state after the loop: \<^verbatim>\<open>nlm = np.zeros((N_layers,6), dtype=np.complex128)\<close>
  filled row by row.
\<close>

definition converted ::
  "('e, 'lm) c2_to_nlm \<Rightarrow> 'e fault + (complex list list \<times> 'lm option)" where
  "converted f =
     bnd c2 (\<lambda>c. convert_loop f c (arange N_layers) (zeros2 N_layers 6, None))"

text \<open>\<^verbatim>\<open>nlm[0, 1:] = 0\<close>\<close>

definition isotropic_top :: "complex list list \<Rightarrow> 'e fault + complex list list" where
  "isotropic_top nlm = assign_row_from nlm 0 1 0"

text \<open>Lines 37 to 52 of the cell: the arrays \<^verbatim>\<open>nlm\<close> and \<^verbatim>\<open>lm\<close> it leaves behind.\<close>

definition construct ::
  "('e, 'lm) c2_to_nlm \<Rightarrow> 'e fault + (complex list list \<times> 'lm option)" where
  "construct f =
     bnd (converted f) (\<lambda>(nlm, lm). bnd (isotropic_top nlm) (\<lambda>nlm'. Inr (nlm', lm)))"

text \<open>
  The same lines for the library as the notebook meets it. Line 50 unpacks what
  \<^verbatim>\<open>c2_to_nlm\<close> hands back into two values, assigns the first to the row
  \<^verbatim>\<open>nlm[ii,:]\<close> and binds \<^verbatim>\<open>lm\<close> to the second.
\<close>

fun convert_loop_raw ::
  "(real list list \<Rightarrow> 'e + 'o pyval) \<Rightarrow> real list list list \<Rightarrow> int list \<Rightarrow>
   complex list list \<times> 'o pyval option \<Rightarrow> 'e fault + (complex list list \<times> 'o pyval option)" where
  "convert_loop_raw f c [] s = Inr s"
| "convert_loop_raw f c (ii # rest) (nlm, lm) =
     bnd (guard (getitem c ii))
       (\<lambda>m. bnd (call (f m))
         (\<lambda>r. bnd (unpack2 r)
           (\<lambda>(a, lm'). bnd (as_row a)
             (\<lambda>row. bnd (assign_row nlm ii row)
               (\<lambda>nlm'. convert_loop_raw f c rest (nlm', Some lm'))))))"

definition construct_raw ::
  "(real list list \<Rightarrow> 'e + 'o pyval) \<Rightarrow> 'e fault + (complex list list \<times> 'o pyval option)" where
  "construct_raw f =
     bnd c2 (\<lambda>c. bnd (convert_loop_raw f c (arange N_layers) (zeros2 N_layers 6, None))
       (\<lambda>(nlm, lm). bnd (isotropic_top nlm) (\<lambda>nlm'. Inr (nlm', lm))))"

text \<open>
  The plotting loop
  \<^verbatim>\<open>for I in [1, int(N_layers/2), -1]: plot_ODF(nlm[I,:], lm, tickintvl=2, cblabel=...)\<close>.
  The label is a fixed text around \<^verbatim>\<open>'%i' % (z[I]*1e-3)\<close>; the embedding passes the
  integer that is printed. Reading \<^verbatim>\<open>lm\<close> unbound raises \<open>NameError\<close>.
\<close>

fun plot_ODFs ::
  "('e, 'o) library \<Rightarrow> complex list list \<Rightarrow> 'o pyval option \<Rightarrow> int list \<Rightarrow> 'e fault + unit" where
  "plot_ODFs x nlm lm [] = Inr ()"
| "plot_ODFs x nlm lm (I # rest) =
     bnd (guard (getitem nlm I))
       (\<lambda>row. bnd (bound lm)
         (\<lambda>l. bnd (guard (getitem z I))
           (\<lambda>zI. bnd (call (plot_ODF x row l 2 (py_int (zI * (1 / 1000)))))
             (\<lambda>_. plot_ODFs x nlm lm rest))))"

text \<open>The cell: its imports, lines 37 to 52, and the plots.\<close>

definition cell1 ::
  "('e, 'o) library \<Rightarrow> 'e fault + (complex list list \<times> 'o pyval option)" where
  "cell1 x =
     bnd (call (import_numpy x))
       (\<lambda>_. bnd (call (import_c2_to_nlm x))
         (\<lambda>_. bnd (construct_raw (c2_to_nlm x))
           (\<lambda>(nlm, lm). bnd (call (import_plot_ODF x))
             (\<lambda>_. bnd (plot_ODFs x nlm lm [1, py_int (real N_layers / 2), - 1])
               (\<lambda>_. Inr (nlm, lm))))))"

subsection \<open>Cell \<^verbatim>\<open>877d7a51\<close>: the radar returns\<close>

definition N_frames :: int where
  "N_frames = 50"

definition epsa :: real where
  "epsa = 3.17"

definition epsc :: real where
  "epsc = epsa - 0.034"

definition sigma :: real where
  "sigma = 1 / 100000"

definition E0 :: real where
  "E0 = 1000"

definition freq :: real where
  "freq = 179000000"

definition alpha :: real where
  "alpha = deg2rad 0"

text \<open>
  The cell imports the two modules, builds the stack from \<^verbatim>\<open>nlm\<close> and \<^verbatim>\<open>z\<close>, asks it
  for the returns and the eigenbasis, and plots them. Its result is the value of
  \<^verbatim>\<open>returns\<close>. The transmit frequency \<^verbatim>\<open>f\<close> is written \<open>freq\<close>. In a call Python
  reads the routine first and then its arguments, so \<^verbatim>\<open>plot_returns\<close> is read before
  \<^verbatim>\<open>lstack.z\<close>.
\<close>

definition cell2 :: "('e, 'o) library \<Rightarrow> complex list list \<Rightarrow> 'e fault + 'o pyval" where
  "cell2 x nlm =
     bnd (call (import_layerstack x))
       (\<lambda>_. bnd (call (import_plottools x))
         (\<lambda>_. bnd (bound (LayerStack x))
           (\<lambda>new. bnd (call (new nlm z N_frames [epsa] [epsc] [sigma]))
             (\<lambda>lstack. bnd (attribute (get_returns x lstack))
               (\<lambda>get. bnd (call (get E0 freq alpha))
                 (\<lambda>returns. bnd (attribute (get_eigenbasis x lstack))
                   (\<lambda>basis. bnd (call basis)
                     (\<lambda>r. bnd (unpack5 r)
                       (\<lambda>(eigvals, e1, e2, e3, a2). bnd (bound (plot_returns x))
                         (\<lambda>plot. bnd (attribute (stack_z x lstack))
                           (\<lambda>lz. bnd (call (plot lz returns a2 eigvals))
                             (\<lambda>p. bnd (unpack_first p)
                               (\<lambda>plt. bnd (attribute (plt_show x plt))
                                 (\<lambda>shown. bnd (call shown)
                                   (\<lambda>_. Inr returns)))))))))))))))"

text \<open>The notebook: the two cells in order (the third cell is empty).\<close>

definition notebook ::
  "('e, 'o) library \<Rightarrow> 'e fault + (complex list list \<times> 'o pyval option \<times> 'o pyval)" where
  "notebook x =
     bnd (cell1 x) (\<lambda>(nlm, lm). bnd (cell2 x nlm) (\<lambda>returns. Inr (nlm, lm, returns)))"

subsection \<open>Notions the properties are stated with\<close>

text \<open>
  The first component of \<^verbatim>\<open>c2_to_nlm(c2[ii,:,:])\<close>, and the row \<^verbatim>\<open>nlm[ii,:]\<close> as it
  stands when line 52 has run.
\<close>

definition spectral_of :: "('e, 'lm) c2_to_nlm \<Rightarrow> int \<Rightarrow> 'e fault + complex list" where
  "spectral_of f ii =
     bnd c2 (\<lambda>c. bnd (guard (getitem c ii))
       (\<lambda>m. bnd (call (f m)) (\<lambda>(row, lm). Inr (row_of row))))"

definition final_row :: "('e, 'lm) c2_to_nlm \<Rightarrow> int \<Rightarrow> 'e fault + complex list" where
  "final_row f ii = bnd (construct f) (\<lambda>(nlm, lm). guard (getitem nlm ii))"

text \<open>The product of a matrix and a vector, to speak of eigenvalues.\<close>

definition mat_vec :: "real list list \<Rightarrow> real list \<Rightarrow> real list" where
  "mat_vec m v = map (\<lambda>row. sum_list (map2 (*) row v)) m"

text \<open>
  A conversion routine to run the script on: it never raises, and every coefficient
  it returns is \<open>1\<close>.
\<close>

definition all_ones :: "(string, unit) c2_to_nlm" where
  "all_ones m = Inr ((1, 1, 1, 1, 1, 1), ())"

text \<open>
  The routine \<open>f\<close> as the notebook meets it: its coefficients as an array and its table,
  in a pair.
\<close>

definition raw_of :: "('e, 'o pyval) c2_to_nlm \<Rightarrow> real list list \<Rightarrow> 'e + 'o pyval" where
  "raw_of f m =
     (case f m of Inl e \<Rightarrow> Inl e
      | Inr (r, lm) \<Rightarrow> Inr (Seq [Seq (map Scalar (row_of r)), lm]))"

text \<open>
  What line 50 stores from a value \<open>v\<close> that \<^verbatim>\<open>c2_to_nlm\<close> has handed back: the six
  entries written to the row, and the new \<^verbatim>\<open>lm\<close>; or the exception it raises.
\<close>

definition line50 :: "'o pyval \<Rightarrow> 'e fault + (complex list \<times> 'o pyval)" where
  "line50 v =
     bnd (unpack2 v)
       (\<lambda>(a, lm). bnd (as_row a)
         (\<lambda>row. case broadcast 6 row of None \<Rightarrow> Inl ValueError | Some w \<Rightarrow> Inr (w, lm)))"

text \<open>
  The imports and external calls of the script, each on the arguments the script
  passes to it, and what it means that one of them raises the exception \<open>ex\<close>: a call
  of \<^verbatim>\<open>plot_ODF\<close> in the plotting loop; an import or a call of the second cell; any
  import or call of the notebook. A call whose routine or arguments come from earlier
  steps is described for what those steps gave.
\<close>

definition plot_ODF_raises ::
  "('e, 'o) library \<Rightarrow> complex list list \<Rightarrow> 'o pyval \<Rightarrow> 'e \<Rightarrow> bool" where
  "plot_ODF_raises x nlm lm ex \<longleftrightarrow>
     (\<exists>I\<in>set [1, py_int (real N_layers / 2), - 1]. \<exists>row zI.
        getitem nlm I = Some row \<and> getitem z I = Some zI \<and>
        plot_ODF x row lm 2 (py_int (zI * (1 / 1000))) = Inl ex)"

definition cell2_raises :: "('e, 'o) library \<Rightarrow> complex list list \<Rightarrow> 'e \<Rightarrow> bool" where
  "cell2_raises x nlm ex \<longleftrightarrow>
     import_layerstack x = Inl ex \<or> import_plottools x = Inl ex \<or>
     (\<exists>new. LayerStack x = Some new \<and>
        (new nlm z N_frames [epsa] [epsc] [sigma] = Inl ex \<or>
         (\<exists>lstack. new nlm z N_frames [epsa] [epsc] [sigma] = Inr lstack \<and>
            ((\<exists>get. get_returns x lstack = Some get \<and> get E0 freq alpha = Inl ex) \<or>
             get_eigenbasis x lstack = Some (Inl ex) \<or>
             (\<exists>get returns r eigvals e1 e2 e3 a2 plot lz.
                get_returns x lstack = Some get \<and> get E0 freq alpha = Inr returns \<and>
                get_eigenbasis x lstack = Some (Inr r) \<and>
                unpack5 r = (Inr (eigvals, e1, e2, e3, a2) :: 'e fault + _) \<and>
                plot_returns x = Some plot \<and> stack_z x lstack = Some lz \<and>
                (plot lz returns a2 eigvals = Inl ex \<or>
                 (\<exists>p plt. plot lz returns a2 eigvals = Inr p \<and>
                    unpack_first p = (Inr plt :: 'e fault + _) \<and>
                    plt_show x plt = Some (Inl ex))))))))"

definition external_raises :: "('e, 'o) library \<Rightarrow> 'e \<Rightarrow> bool" where
  "external_raises x ex \<longleftrightarrow>
     import_numpy x = Inl ex \<or> import_c2_to_nlm x = Inl ex \<or>
     (\<exists>c ii. (c2 :: 'e fault + real list list list) = Inr c \<and> ii < N_layers \<and>
        c2_to_nlm x (c ! ii) = Inl ex) \<or>
     import_plot_ODF x = Inl ex \<or>
     (\<exists>nlm lm. construct_raw (c2_to_nlm x) = Inr (nlm, Some lm) \<and>
        (plot_ODF_raises x nlm lm ex \<or> cell2_raises x nlm ex))"

text \<open>
  What it means that the library hands the script something one of its statements
  cannot use: in the second cell, a name the star imports have not bound, an attribute
  that is not there, or a value that does not unpack; in the notebook, these, or a
  value of \<^verbatim>\<open>c2_to_nlm\<close> from which line 50 cannot store a row.
\<close>

definition cell2_unusable :: "('e, 'o) library \<Rightarrow> complex list list \<Rightarrow> bool" where
  "cell2_unusable x nlm \<longleftrightarrow>
     LayerStack x = None \<or>
     (\<exists>new lstack. LayerStack x = Some new \<and>
        new nlm z N_frames [epsa] [epsc] [sigma] = Inr lstack \<and>
        (get_returns x lstack = None \<or>
         (\<exists>get returns. get_returns x lstack = Some get \<and> get E0 freq alpha = Inr returns \<and>
            (get_eigenbasis x lstack = None \<or>
             (\<exists>r. get_eigenbasis x lstack = Some (Inr r) \<and>
                ((\<exists>e. unpack5 r = (Inl e :: 'e fault + _)) \<or>
                 (\<exists>eigvals e1 e2 e3 a2.
                    unpack5 r = (Inr (eigvals, e1, e2, e3, a2) :: 'e fault + _) \<and>
                    (plot_returns x = None \<or> stack_z x lstack = None \<or>
                     (\<exists>plot lz p. plot_returns x = Some plot \<and> stack_z x lstack = Some lz \<and>
                        plot lz returns a2 eigvals = Inr p \<and>
                        ((\<exists>e. unpack_first p = (Inl e :: 'e fault + _)) \<or>
                         (\<exists>plt. unpack_first p = (Inr plt :: 'e fault + _) \<and>
                            plt_show x plt = None)))))))))))"

definition unusable :: "('e, 'o) library \<Rightarrow> bool" where
  "unusable x \<longleftrightarrow>
     (\<exists>c ii v e. (c2 :: 'e fault + real list list list) = Inr c \<and> ii < N_layers \<and>
        c2_to_nlm x (c ! ii) = Inr v \<and> line50 v = (Inl e :: 'e fault + _)) \<or>
     (\<exists>nlm lm. construct_raw (c2_to_nlm x) = Inr (nlm, Some lm) \<and> cell2_unusable x nlm)"

text \<open>
  Libraries to run the notebook on. In the first every import and call succeeds and
  every value has the shape the script expects. The second differs in the
  \<^verbatim>\<open>LayerStack\<close> constructor, which raises; the third in \<^verbatim>\<open>c2_to_nlm\<close>, which hands
  back five coefficients instead of six, and raises nothing.
\<close>

definition quiet_library :: "(string, unit) library" where
  "quiet_library =
     \<lparr>import_numpy = Inr (),
      import_c2_to_nlm = Inr (),
      c2_to_nlm = (\<lambda>m. Inr (Seq [Seq [Scalar 1, Scalar 1, Scalar 1, Scalar 1, Scalar 1, Scalar 1],
                                  Object ()])),
      import_plot_ODF = Inr (),
      plot_ODF = (\<lambda>row lm tickintvl cblabel. Inr (Object ())),
      import_layerstack = Inr (),
      import_plottools = Inr (),
      LayerStack = Some (\<lambda>nlm z n_frames epsa epsc sigma. Inr (Object ())),
      get_returns = (\<lambda>lstack. Some (\<lambda>e0 f alpha. Inr (Object ()))),
      get_eigenbasis =
        (\<lambda>lstack. Some (Inr (Seq [Object (), Object (), Object (), Object (), Object ()]))),
      stack_z = (\<lambda>lstack. Some (Object ())),
      plot_returns = Some (\<lambda>lz returns a2 eigvals. Inr (Seq [Object (), Object ()])),
      plt_show = (\<lambda>plt. Some (Inr (Object ())))\<rparr>"

definition failing_library :: "(string, unit) library" where
  "failing_library =
     quiet_library\<lparr>LayerStack :=
       Some (\<lambda>nlm z n_frames epsa epsc sigma. Inl ''LayerStack'')\<rparr>"

definition five_library :: "(string, unit) library" where
  "five_library =
     quiet_library\<lparr>c2_to_nlm :=
       (\<lambda>m. Inr (Seq [Seq [Scalar 1, Scalar 1, Scalar 1, Scalar 1, Scalar 1], Object ()]))\<rparr>"

text \<open>
  Shapes, and the closed form of one layer's tensor: \<open>square3\<close> is the shape \<open>(3, 3)\<close>,
  \<open>shape6 n\<close> the shape \<open>(n, 6)\<close>, and \<open>tensor l\<close> the diagonal matrix that the three
  assignments to \<^verbatim>\<open>c2\<close> build for the eigenvalue \<open>l\<close>.
\<close>

definition square3 :: "'a list list \<Rightarrow> bool" where
  "square3 m \<longleftrightarrow> length m = 3 \<and> (\<forall>r\<in>set m. length r = 3)"

definition shape6 :: "nat \<Rightarrow> complex list list \<Rightarrow> bool" where
  "shape6 n a \<longleftrightarrow> length a = n \<and> (\<forall>r\<in>set a. length r = 6)"

definition diag3 :: "real \<Rightarrow> real \<Rightarrow> real \<Rightarrow> real list list" where
  "diag3 a b c = [[a, 0, 0], [0, b, 0], [0, 0, c]]"

definition tensor :: "real \<Rightarrow> real list list" where
  "tensor l = diag3 (3 / 10 * (1 - l)) (7 / 10 * (1 - l)) l"

section \<open>Properties\<close>

subsection \<open>\<^verbatim>\<open>np.linspace\<close> and the interface positions\<close>

lemma length_linspace: "length (linspace a b n) = n"
  by (simp add: linspace_def Let_def)

lemma linspace_last: "1 < n \<Longrightarrow> linspace a b n ! (n - 1) = b"
  by (simp add: linspace_def Let_def)

lemma linspace_nth:
  assumes "1 < n" "i < n"
  shows "linspace a b n ! i = a + real i * (b - a) / real (n - 1)"
proof (cases "i = n - 1")
  case True
  from assms have "real (n - 1) \<noteq> 0" by simp
  then have "a + real (n - 1) * (b - a) / real (n - 1) = b" by simp
  with True assms linspace_last [of n a b] show ?thesis
    by simp
next
  case False
  with assms have "i < n - 1" by simp
  with assms show ?thesis
    by (simp add: linspace_def Let_def of_nat_diff)
qed

text \<open>
  C3. The interface positions \<open>z\<close> have \<open>N_layers\<close> entries, start at \<open>0\<close>, decrease
  strictly from each entry to the next, and end at \<open>-H\<close>, with \<open>H = 2000\<close>.
\<close>

theorem z_decreasing:
  "length z = N_layers \<and> z ! 0 = 0 \<and>
   (\<forall>i. i + 1 < N_layers \<longrightarrow> z ! i > z ! (i + 1)) \<and>
   z ! (N_layers - 1) = - real_of_int H \<and> last z = - real_of_int H \<and> H = 2000"
proof -
  have len: "length z = N_layers"
    by (simp add: z_def length_linspace)
  have nth: "z ! i = - (real i * 2000 / 99)" if "i < 100" for i
    using that linspace_nth [of 100 i 0 "-2000"]
    by (simp add: z_def H_def N_layers_def)
  have z0: "z ! 0 = 0"
    using nth [of 0] by simp
  have dec: "z ! i > z ! (i + 1)" if "i + 1 < N_layers" for i
  proof -
    from that have "i < 100" "i + 1 < 100" by (simp_all add: N_layers_def)
    then show ?thesis
      using nth [of i] nth [of "i + 1"] by (simp add: field_simps)
  qed
  have lst: "z ! (N_layers - 1) = - real_of_int H"
    using nth [of 99] by (simp add: N_layers_def H_def)
  have "z \<noteq> []"
    using len by (auto simp: N_layers_def)
  then have "last z = z ! (N_layers - 1)"
    using len by (simp add: last_conv_nth)
  with len z0 dec lst show ?thesis
    by (simp add: H_def)
qed

theorem z_decreasing_witness:
  "(0::nat) + 1 < N_layers \<and> z ! 0 > z ! (0 + 1)"
proof -
  have h: "(0::nat) + 1 < N_layers" by (simp add: N_layers_def)
  from z_decreasing have "\<forall>i. i + 1 < N_layers \<longrightarrow> z ! i > z ! (i + 1)"
    by blast
  with h show ?thesis by blast
qed

subsection \<open>Sequencing, calls and indexing\<close>

lemma bnd_Inr [simp]: "bnd (Inr v) k = k v"
  by (simp add: bnd_def)

lemma bnd_Inl [simp]: "bnd (Inl e) k = Inl e"
  by (simp add: bnd_def)

lemma bnd_eq_Inr: "bnd m k = Inr r \<longleftrightarrow> (\<exists>v. m = Inr v \<and> k v = Inr r)"
  by (cases m) simp_all

lemma bnd_eq_Inl: "bnd m k = Inl e \<longleftrightarrow> m = Inl e \<or> (\<exists>v. m = Inr v \<and> k v = Inl e)"
  by (cases m) simp_all

lemma call_simps [simp]: "call (Inl e) = Inl (External e)" "call (Inr v) = Inr v"
  by (simp_all add: call_def)

lemma call_eq_Inr [simp]: "call r = Inr v \<longleftrightarrow> r = Inr v"
  by (cases r) simp_all

lemma call_eq_Inl: "call r = Inl e \<longleftrightarrow> (\<exists>x. r = Inl x \<and> e = External x)"
  by (cases r) auto

lemma guard_simps [simp]: "guard None = Inl IndexError" "guard (Some v) = Inr v"
  by (simp_all add: guard_def)

lemma norm_index_nat [simp]: "k < n \<Longrightarrow> norm_index n (int k) = Some k"
  by (simp add: norm_index_def)

lemma getitem_nat [simp]: "k < length xs \<Longrightarrow> getitem xs (int k) = Some (xs ! k)"
  by (simp add: getitem_def)

lemma setitem_nat [simp]: "k < length xs \<Longrightarrow> setitem xs (int k) v = Some (xs[k := v])"
  by (simp add: setitem_def)

lemma setitem2_nat:
  "j < length m \<Longrightarrow> k < length (m ! j) \<Longrightarrow>
   setitem2 m (int j) (int k) v = Some (m[j := (m ! j)[k := v]])"
  by (simp add: setitem2_def)

lemma those_map_Some: "(\<And>x. x \<in> set xs \<Longrightarrow> f x = Some (g x)) \<Longrightarrow> those (map f xs) = Some (map g xs)"
  by (induction xs) simp_all

lemma assign_entries_square3:
  assumes sq: "\<And>m. m \<in> set a \<Longrightarrow> square3 m" and len: "length v = length a"
    and j: "j < 3" and k: "k < 3"
  shows "assign_entries a (int j) (int k) v = Inr (map2 (\<lambda>m x. m[j := (m ! j)[k := x]]) a v)"
proof -
  have upd: "setitem2 m (int j) (int k) x = Some (m[j := (m ! j)[k := x]])" if "m \<in> set a" for m x
    using sq [OF that] j k by (simp add: setitem2_nat square3_def)
  have 1: "those (map (\<lambda>m. setitem2 m (int j) (int k) 0) a) = Some (map (\<lambda>m. m[j := (m ! j)[k := 0]]) a)"
    by (rule those_map_Some) (simp add: upd)
  have 2: "those (map2 (\<lambda>m x. setitem2 m (int j) (int k) x) a v)
           = Some (map2 (\<lambda>m x. m[j := (m ! j)[k := x]]) a v)"
    by (rule those_map_Some) (auto simp: upd dest: set_zip_leftD)
  show ?thesis
    by (simp add: assign_entries_def 1 2 broadcast_def len)
qed

subsection \<open>The construction of \<^verbatim>\<open>c2\<close>\<close>

lemma square3_update: "square3 m \<Longrightarrow> j < 3 \<Longrightarrow> square3 (m[j := (m ! j)[k := x]])"
  by (auto simp: square3_def dest!: set_update_subset_insert [THEN subsetD])

lemma square3_zeros: "m \<in> set (zeros3 n 3 3) \<Longrightarrow> square3 m"
  by (auto simp: zeros3_def zeros2_def square3_def)

lemma length_lambdavec [simp]: "length lambdavec = N_layers"
  by (simp add: lambdavec_def length_linspace)

lemma c2_eq: "c2 = Inr (map (\<lambda>l. diag3 (3 / 10 * (1 - l)) (7 / 10 * (1 - l)) l) lambdavec)"
proof -
  let ?v0 = "map (\<lambda>l. 3 / 10 * (1 - l)) lambdavec"
  let ?v1 = "map (\<lambda>l. 7 / 10 * (1 - l)) lambdavec"
  let ?a0 = "zeros3 N_layers 3 3 :: real list list list"
  let ?a1 = "map2 (\<lambda>m x. m[0 := (m ! 0)[0 := x]]) ?a0 ?v0"
  let ?a2 = "map2 (\<lambda>m x. m[1 := (m ! 1)[1 := x]]) ?a1 ?v1"
  let ?a3 = "map2 (\<lambda>m x. m[2 := (m ! 2)[2 := x]]) ?a2 lambdavec"
  have len0: "length ?a0 = N_layers"
    by (simp add: zeros3_def)
  have sq1: "square3 m" if "m \<in> set ?a1" for m
    using that by (auto simp: set_zip_leftD square3_zeros intro!: square3_update dest!: set_zip_leftD)
  have sq2: "square3 m" if "m \<in> set ?a2" for m
    using that sq1 by (auto intro!: square3_update dest!: set_zip_leftD)
  have s1: "assign_entries ?a0 0 0 ?v0 = (Inr ?a1 :: 'a fault + real list list list)"
    using assign_entries_square3 [of ?a0 ?v0 0 0] by (simp add: square3_zeros len0)
  have s2: "assign_entries ?a1 1 1 ?v1 = (Inr ?a2 :: 'a fault + real list list list)"
    using assign_entries_square3 [of ?a1 ?v1 1 1] sq1 by (simp add: len0)
  have s3: "assign_entries ?a2 2 2 lambdavec = (Inr ?a3 :: 'a fault + real list list list)"
    using assign_entries_square3 [of ?a2 lambdavec 2 2] sq2 by (simp add: len0)
  have "?a3 = map (\<lambda>l. diag3 (3 / 10 * (1 - l)) (7 / 10 * (1 - l)) l) lambdavec"
    by (rule nth_equalityI) (simp_all add: len0 zeros3_def zeros2_def diag3_def eval_nat_numeral)
  with s1 s2 s3 show ?thesis
    by (simp add: c2_def)
qed

subsection \<open>The conversion loop\<close>

lemma length_row_of [simp]: "length (row_of r) = 6"
  by (cases r rule: row_of.cases) simp

lemma getitem_in: "0 \<le> i \<Longrightarrow> i < int (length xs) \<Longrightarrow> getitem xs i = Some (xs ! nat i)"
  by (simp add: getitem_def norm_index_def)

lemma setitem_in: "0 \<le> i \<Longrightarrow> i < int (length xs) \<Longrightarrow> setitem xs i v = Some (xs[nat i := v])"
  by (simp add: setitem_def norm_index_def)

lemma assign_row_shape6:
  assumes "shape6 n a" "0 \<le> i" "i < int n"
  shows "assign_row a i (row_of r) = Inr (a[nat i := row_of r])"
proof -
  from assms have "nat i < length a" "length (a ! nat i) = 6"
    by (auto simp: shape6_def)
  with assms show ?thesis
    by (simp add: assign_row_def getitem_in setitem_in shape6_def broadcast_def)
qed

lemma shape6_update: "shape6 n a \<Longrightarrow> shape6 n (a[k := row_of r])"
  by (auto simp: shape6_def dest!: set_update_subset_insert [THEN subsetD])

lemma shape6_zeros [simp]: "shape6 n (zeros2 n 6)"
  by (simp add: shape6_def zeros2_def)

lemma convert_loop_Inr:
  assumes "convert_loop f c is (nlm, lm) = Inr (nlm', lm')"
    and "shape6 n nlm" and "length c = n" and "\<forall>i\<in>set is. 0 \<le> i \<and> i < int n"
  shows "shape6 n nlm' \<and>
         (\<forall>k<n. (int k \<in> set is \<longrightarrow> (\<exists>r l. f (c ! k) = Inr (r, l) \<and> nlm' ! k = row_of r)) \<and>
                 (int k \<notin> set is \<longrightarrow> nlm' ! k = nlm ! k))"
  using assms
proof (induction "is" arbitrary: nlm lm)
  case Nil
  then show ?case by simp
next
  case (Cons i rest)
  from Cons.prems have i: "0 \<le> i" "i < int n" "nat i < n" and len: "length nlm = n"
    by (auto simp: shape6_def)
  from Cons.prems i obtain r l where
    fr: "f (c ! nat i) = Inr (r, l)" and
    rest: "convert_loop f c rest (nlm[nat i := row_of r], Some l) = Inr (nlm', lm')"
    by (auto simp: getitem_in bnd_eq_Inr assign_row_shape6 call_def split: sum.splits)
  have sh: "shape6 n (nlm[nat i := row_of r])"
    using Cons.prems(2) by (rule shape6_update)
  from Cons.prems have idx: "\<forall>i\<in>set rest. 0 \<le> i \<and> i < int n"
    by simp
  note IH = Cons.IH [OF rest sh \<open>length c = n\<close> idx]
  show ?case
  proof (intro conjI allI impI)
    show "shape6 n nlm'" using IH by simp
  next
    fix k assume k: "k < n" and mem: "int k \<in> set (i # rest)"
    show "\<exists>r l. f (c ! k) = Inr (r, l) \<and> nlm' ! k = row_of r"
    proof (cases "int k \<in> set rest")
      case True
      with IH k show ?thesis by blast
    next
      case False
      with mem have ki: "k = nat i" by auto
      with IH k False have "nlm' ! k = nlm[nat i := row_of r] ! k" by blast
      with ki i len fr show ?thesis by simp
    qed
  next
    fix k assume k: "k < n" and nmem: "int k \<notin> set (i # rest)"
    then have "int k \<notin> set rest" "int k \<noteq> i" by auto
    moreover from \<open>int k \<noteq> i\<close> i have "k \<noteq> nat i" by auto
    ultimately show "nlm' ! k = nlm ! k" using IH k by simp
  qed
qed

lemma convert_loop_Inl:
  assumes "convert_loop f c is (nlm, lm) = Inl e"
    and "shape6 n nlm" and "length c = n" and "\<forall>i\<in>set is. 0 \<le> i \<and> i < int n"
  shows "\<exists>i\<in>set is. \<exists>x. f (c ! nat i) = Inl x \<and> e = External x"
  using assms
proof (induction "is" arbitrary: nlm lm)
  case Nil
  then show ?case by simp
next
  case (Cons i rest)
  from Cons.prems have i: "0 \<le> i" "i < int n" "nat i < n"
    by (auto simp: shape6_def)
  show ?case
  proof (cases "f (c ! nat i)")
    case (Inl x)
    with Cons.prems i have "e = External x"
      by (simp add: getitem_in)
    with Inl show ?thesis by auto
  next
    case (Inr v)
    obtain r l where v: "v = (r, l)" by (cases v)
    with Inr Cons.prems i
    have rest: "convert_loop f c rest (nlm[nat i := row_of r], Some l) = Inl e"
      by (simp add: getitem_in assign_row_shape6)
    have sh: "shape6 n (nlm[nat i := row_of r])"
      using Cons.prems(2) by (rule shape6_update)
    from Cons.prems have idx: "\<forall>i\<in>set rest. 0 \<le> i \<and> i < int n"
      by simp
    from Cons.IH [OF rest sh \<open>length c = n\<close> idx] show ?thesis
      by auto
  qed
qed

lemma convert_loop_lm:
  assumes "convert_loop f c is (nlm, lm) = Inr (nlm', lm')" and "is \<noteq> []"
  shows "\<exists>m r l. f m = Inr (r, l) \<and> lm' = Some l"
  using assms
proof (induction "is" arbitrary: nlm lm)
  case Nil
  then show ?case by simp
next
  case (Cons i rest)
  from Cons.prems(1) obtain m v a where fm: "f m = Inr v"
    and rest0: "convert_loop f c rest (a, Some (snd v)) = Inr (nlm', lm')"
    by (auto simp: bnd_eq_Inr)
  obtain r l where v: "v = (r, l)" by (cases v)
  with fm rest0 have fm: "f m = Inr (r, l)"
    and rest: "convert_loop f c rest (a, Some l) = Inr (nlm', lm')"
    by simp_all
  show ?case
  proof (cases "rest = []")
    case True
    with rest have "lm' = Some l" by simp
    with fm show ?thesis by blast
  next
    case False
    with Cons.IH [OF rest] show ?thesis by simp
  qed
qed

lemma convert_loop_raises:
  assumes "i \<in> set is" and "0 \<le> i" and "i < int (length c)" and "f (c ! nat i) = Inl x"
  shows "\<exists>e. convert_loop f c is (nlm, lm) = Inl e"
  using assms(1)
proof (induction "is" arbitrary: nlm lm)
  case Nil
  then show ?case by simp
next
  case (Cons j rest)
  show ?case
  proof (cases "j = i")
    case True
    with assms show ?thesis
      by (simp add: getitem_in)
  next
    case False
    with Cons.prems have "i \<in> set rest" by simp
    from Cons.IH [OF this] show ?thesis
      by (auto simp: bnd_def split: sum.splits)
  qed
qed

lemma c2_tensor: "c2 = Inr (map tensor lambdavec)"
  by (simp add: c2_eq tensor_def)

lemma lambdavec_nth: "i < N_layers \<Longrightarrow> lambdavec ! i = 1 / 2 + real i * (2 / 5) / 99"
  using linspace_nth [of 100 i "1.5 / 3" "0.9"]
  by (simp add: lambdavec_def N_layers_def)

lemma lambdavec_bounds:
  assumes "i < N_layers"
  shows "1 / 2 \<le> lambdavec ! i" and "lambdavec ! i \<le> 9 / 10"
proof -
  from assms have "real i \<le> 99" by (simp add: N_layers_def)
  then show "1 / 2 \<le> lambdavec ! i" "lambdavec ! i \<le> 9 / 10"
    by (simp_all add: lambdavec_nth [OF assms])
qed

lemma arange_range: "i \<in> set (arange n) \<longleftrightarrow> 0 \<le> i \<and> i < int n"
proof
  assume "i \<in> set (arange n)"
  then show "0 \<le> i \<and> i < int n" by (auto simp: arange_def)
next
  assume "0 \<le> i \<and> i < int n"
  then have "nat i < n" "i = int (nat i)" by auto
  then show "i \<in> set (arange n)"
    unfolding arange_def by (metis atLeastLessThan_iff image_eqI set_map set_upt zero_le)
qed

lemma converted_Inr:
  assumes "converted f = Inr (nlm, lm)"
  shows "shape6 N_layers nlm \<and>
         (\<forall>k<N_layers. \<exists>r l. f (tensor (lambdavec ! k)) = Inr (r, l) \<and> nlm ! k = row_of r)"
proof -
  let ?c = "map tensor lambdavec"
  from assms have loop:
    "convert_loop f ?c (arange N_layers) (zeros2 N_layers 6, None) = Inr (nlm, lm)"
    by (simp add: converted_def c2_tensor)
  have idx: "\<forall>i\<in>set (arange N_layers). 0 \<le> i \<and> i < int N_layers"
    by (simp add: arange_range)
  from convert_loop_Inr [OF loop shape6_zeros _ idx]
  show ?thesis by (simp add: arange_range)
qed

lemma converted_Inl:
  assumes "converted f = Inl e"
  shows "\<exists>k<N_layers. \<exists>x. f (tensor (lambdavec ! k)) = Inl x \<and> e = External x"
proof -
  let ?c = "map tensor lambdavec"
  from assms have loop:
    "convert_loop f ?c (arange N_layers) (zeros2 N_layers 6, None) = Inl e"
    by (simp add: converted_def c2_tensor)
  have idx: "\<forall>i\<in>set (arange N_layers). 0 \<le> i \<and> i < int N_layers"
    by (simp add: arange_range)
  from convert_loop_Inl [OF loop shape6_zeros _ idx]
  obtain i x where i: "0 \<le> i" "i < int N_layers" and "f (?c ! nat i) = Inl x" "e = External x"
    by (auto simp: arange_range)
  then have "nat i < N_layers \<and> f (tensor (lambdavec ! nat i)) = Inl x \<and> e = External x"
    by simp
  then show ?thesis by blast
qed

lemma converted_raises:
  assumes "k < N_layers" and "f (tensor (lambdavec ! k)) = Inl x"
  shows "\<exists>e. converted f = Inl e"
proof -
  let ?c = "map tensor lambdavec"
  from assms have "int k \<in> set (arange N_layers)" "0 \<le> int k" "int k < int (length ?c)"
    "f (?c ! nat (int k)) = Inl x"
    by (simp_all add: arange_range)
  from convert_loop_raises [of "int k" "arange N_layers" ?c f x "zeros2 N_layers 6" None, OF this]
  show ?thesis
    by (simp add: converted_def c2_tensor)
qed

lemma converted_lm:
  assumes "converted f = Inr (nlm, lm)"
  shows "\<exists>m r l. f m = Inr (r, l) \<and> lm = Some l"
proof -
  have "arange N_layers \<noteq> []"
    by (simp add: arange_def N_layers_def)
  with assms convert_loop_lm [of f "map tensor lambdavec" "arange N_layers"] show ?thesis
    by (simp add: converted_def c2_tensor)
qed

lemma isotropic_top_shape6:
  assumes "shape6 N_layers nlm"
  shows "isotropic_top nlm = Inr (nlm[0 := [nlm ! 0 ! 0, 0, 0, 0, 0, 0]])"
proof -
  from assms have len: "0 < length nlm" and row: "length (nlm ! 0) = 6"
    by (auto simp: shape6_def N_layers_def)
  from row obtain a b c d e f where "nlm ! 0 = [a, b, c, d, e, f]"
    by (auto simp: length_Suc_conv eval_nat_numeral)
  with len show ?thesis
    using getitem_nat [of 0 nlm] setitem_nat [of 0 nlm]
    by (simp add: isotropic_top_def assign_row_from_def eval_nat_numeral)
qed

lemma construct_Inr:
  "construct f = Inr (nlm, lm) \<longleftrightarrow>
   (\<exists>nlm1. converted f = Inr (nlm1, lm) \<and> nlm = nlm1[0 := [nlm1 ! 0 ! 0, 0, 0, 0, 0, 0]])"
proof
  assume "construct f = Inr (nlm, lm)"
  then obtain nlm1 lm1 where c: "converted f = Inr (nlm1, lm1)"
    and i: "bnd (isotropic_top nlm1) (\<lambda>nlm'. Inr (nlm', lm1)) = (Inr (nlm, lm) :: 'a fault + _)"
    by (auto simp: construct_def bnd_eq_Inr)
  from converted_Inr [OF c] have "shape6 N_layers nlm1" ..
  with i have "nlm = nlm1[0 := [nlm1 ! 0 ! 0, 0, 0, 0, 0, 0]]" "lm1 = lm"
    by (simp_all add: isotropic_top_shape6)
  with c show "\<exists>nlm1. converted f = Inr (nlm1, lm) \<and> nlm = nlm1[0 := [nlm1 ! 0 ! 0, 0, 0, 0, 0, 0]]"
    by blast
next
  assume "\<exists>nlm1. converted f = Inr (nlm1, lm) \<and> nlm = nlm1[0 := [nlm1 ! 0 ! 0, 0, 0, 0, 0, 0]]"
  then obtain nlm1 where c: "converted f = Inr (nlm1, lm)"
    and n: "nlm = nlm1[0 := [nlm1 ! 0 ! 0, 0, 0, 0, 0, 0]]" by blast
  from converted_Inr [OF c] have "shape6 N_layers nlm1" ..
  with c n show "construct f = Inr (nlm, lm)"
    by (simp add: construct_def isotropic_top_shape6)
qed

lemma construct_Inl: "construct f = Inl e \<longleftrightarrow> converted f = Inl e"
proof (cases "converted f")
  case (Inl e')
  then show ?thesis by (simp add: construct_def)
next
  case (Inr s)
  obtain nlm1 lm where s: "s = (nlm1, lm)" by (cases s)
  with Inr converted_Inr [of f nlm1 lm] have "shape6 N_layers nlm1" by simp
  with Inr s show ?thesis
    by (simp add: construct_def isotropic_top_shape6)
qed

lemma converted_const:
  "converted (\<lambda>m. Inr (r, l)) = Inr (replicate N_layers (row_of r), Some l)"
proof -
  let ?f = "\<lambda>m :: real list list. (Inr (r, l) :: 'a + coeffs \<times> 'b)"
  have "\<not> (\<exists>e. converted ?f = Inl e)"
    using converted_Inl [of ?f] by auto
  then obtain nlm lm where c: "converted ?f = Inr (nlm, lm)"
    by (cases "converted ?f") auto
  from converted_Inr [OF c] have "length nlm = N_layers" "\<forall>k<N_layers. nlm ! k = row_of r"
    by (simp_all add: shape6_def)
  then have nlm: "nlm = replicate N_layers (row_of r)"
    by (intro nth_equalityI) simp_all
  from converted_lm [OF c] have "lm = Some l"
    by auto
  with c nlm show ?thesis by simp
qed

lemma converted_all_ones:
  "converted all_ones = Inr (replicate N_layers [1, 1, 1, 1, 1, 1], Some ())"
proof -
  have "all_ones = (\<lambda>m. Inr ((1, 1, 1, 1, 1, 1), ()))"
    by (rule ext) (simp add: all_ones_def)
  then show ?thesis
    using converted_const [of "(1, 1, 1, 1, 1, 1)" "()", where ?'a = string] by simp
qed

lemma shape6_replicate: "length r = 6 \<Longrightarrow> shape6 n (replicate n r)"
  by (simp add: shape6_def)

subsection \<open>The isotropic top layer\<close>

text \<open>
  C1. When the conversion loop has completed, the assignment \<^verbatim>\<open>nlm[0, 1:] = 0\<close>
  succeeds and leaves an array of \<open>N_layers\<close> rows whose row 0 has six entries, of which
  those at columns 1 to 5 are zero.
\<close>

theorem top_layer_isotropic:
  fixes f :: "('e, 'lm) c2_to_nlm"
  assumes "converted f = Inr (nlm1, lm)"
  shows "\<exists>nlm. isotropic_top nlm1 = (Inr nlm :: 'e fault + complex list list) \<and>
           construct f = Inr (nlm, lm) \<and> length nlm = N_layers \<and> length (nlm ! 0) = 6 \<and>
           (\<forall>j. 1 \<le> j \<and> j < 6 \<longrightarrow> nlm ! 0 ! j = 0)"
proof -
  let ?nlm = "nlm1[0 := [nlm1 ! 0 ! 0, 0, 0, 0, 0, 0]]"
  from converted_Inr [OF assms] have sh: "shape6 N_layers nlm1" ..
  then have iso: "isotropic_top nlm1 = (Inr ?nlm :: 'e fault + complex list list)"
    by (rule isotropic_top_shape6)
  from assms have con: "construct f = Inr (?nlm, lm)"
    by (auto simp: construct_Inr)
  from sh have len: "length ?nlm = N_layers" and pos: "0 < length nlm1"
    by (simp_all add: shape6_def N_layers_def)
  from pos have row: "?nlm ! 0 = [nlm1 ! 0 ! 0, 0, 0, 0, 0, 0]"
    by simp
  have zero: "?nlm ! 0 ! j = 0" if "1 \<le> j \<and> j < 6" for j
  proof -
    from that have "j = 1 \<or> j = 2 \<or> j = 3 \<or> j = 4 \<or> j = 5" by auto
    then show ?thesis using row by (auto simp: eval_nat_numeral)
  qed
  from iso con len row zero show ?thesis
    by (intro exI [of _ ?nlm]) simp
qed

theorem top_layer_isotropic_witness:
  "converted all_ones = Inr (replicate N_layers [1, 1, 1, 1, 1, 1], Some ()) \<and>
   (\<exists>nlm. construct all_ones = Inr (nlm, Some ()) \<and> nlm ! 0 ! 1 = 0 \<and> nlm ! 0 ! 5 = 0)"
proof -
  note h = converted_all_ones
  from top_layer_isotropic [OF h] obtain nlm where
    "construct all_ones = Inr (nlm, Some ())" "\<forall>j. 1 \<le> j \<and> j < 6 \<longrightarrow> nlm ! 0 ! j = 0"
    by blast
  then have "construct all_ones = Inr (nlm, Some ()) \<and> nlm ! 0 ! 1 = 0 \<and> nlm ! 0 ! 5 = 0"
    by simp
  with h show ?thesis by blast
qed

text \<open>
  C2. The assignment \<^verbatim>\<open>nlm[0, 1:] = 0\<close> changes nothing but columns 1 onward of row 0:
  the array keeps its shape, every entry of every row \<open>ii \<ge> 1\<close> and the entry
  \<open>nlm[0, 0]\<close> are what they were before the assignment, that is, what the conversion
  loop produced.
\<close>

theorem isotropy_frame:
  assumes "isotropic_top nlm1 = Inr nlm"
  shows "length nlm = length nlm1 \<and>
         (\<forall>ii j. 1 \<le> ii \<longrightarrow> nlm ! ii ! j = nlm1 ! ii ! j) \<and>
         nlm ! 0 ! 0 = nlm1 ! 0 ! 0 \<and> length (nlm ! 0) = length (nlm1 ! 0)"
proof (cases nlm1)
  case Nil
  with assms show ?thesis
    by (simp add: isotropic_top_def assign_row_from_def getitem_def norm_index_def)
next
  case (Cons r rest)
  then have g: "getitem nlm1 0 = Some r"
    using getitem_nat [of 0 nlm1] by simp
  from Cons have "setitem nlm1 0 v = Some (v # rest)" for v
    using setitem_nat [of 0 nlm1 v] by simp
  with assms g have nlm: "nlm = (take 1 r @ replicate (length r - 1) 0) # rest"
    by (simp add: isotropic_top_def assign_row_from_def)
  have "(take 1 r @ replicate (length r - 1) 0) ! 0 = r ! 0"
    by (cases r) simp_all
  moreover have "length (take 1 r @ replicate (length r - 1) 0) = length r"
    by (cases r) simp_all
  moreover have "(x # rest) ! ii = (r # rest) ! ii" if "1 \<le> ii" for x ii
    using that by (cases ii) simp_all
  ultimately show ?thesis
    using nlm Cons by simp
qed

theorem isotropy_frame_witness:
  "converted all_ones = Inr (replicate N_layers [1, 1, 1, 1, 1, 1], Some ()) \<and>
   isotropic_top (replicate N_layers [1, 1, 1, 1, 1, 1])
     = (Inr ((replicate N_layers [1, 1, 1, 1, 1, 1])[0 := [1, 0, 0, 0, 0, 0]]) :: unit fault + _) \<and>
   (1::nat) \<le> 1 \<and>
   (replicate N_layers [1, 1, 1, 1, 1, 1])[0 := [1, 0, 0, 0, 0, 0]] ! 1 ! 1
     = replicate N_layers [1, 1, 1, 1, 1, 1 :: complex] ! 1 ! 1"
proof -
  have "shape6 N_layers (replicate N_layers [1, 1, 1, 1, 1, 1])"
    by (simp add: shape6_replicate)
  from isotropic_top_shape6 [OF this]
  have h: "isotropic_top (replicate N_layers [1, 1, 1, 1, 1, 1])
     = (Inr ((replicate N_layers [1, 1, 1, 1, 1, 1])[0 := [1, 0, 0, 0, 0, 0]]) :: unit fault + _)"
    by (simp add: N_layers_def)
  from isotropy_frame [OF h] have
    "\<forall>ii j. 1 \<le> ii \<longrightarrow>
       (replicate N_layers [1, 1, 1, 1, 1, 1])[0 := [1, 0, 0, 0, 0, 0]] ! ii ! j
         = replicate N_layers [1, 1, 1, 1, 1, 1 :: complex] ! ii ! j"
    by blast
  then have "(1::nat) \<le> 1 \<longrightarrow>
       (replicate N_layers [1, 1, 1, 1, 1, 1])[0 := [1, 0, 0, 0, 0, 0]] ! 1 ! 1
         = replicate N_layers [1, 1, 1, 1, 1, 1 :: complex] ! 1 ! 1"
    by blast
  with h converted_all_ones show ?thesis by simp
qed

subsection \<open>The structure tensors\<close>

lemma tensor_entries:
  "tensor l ! 0 = [3 / 10 * (1 - l), 0, 0]" "tensor l ! 1 = [0, 7 / 10 * (1 - l), 0]"
  "tensor l ! Suc 0 = [0, 7 / 10 * (1 - l), 0]"
  "tensor l ! 2 = [0, 0, l]" "length (tensor l) = 3"
  by (simp_all add: tensor_def diag3_def)

lemma c2_nth:
  "\<exists>c. (c2 :: 'e fault + real list list list) = Inr c \<and> length c = N_layers \<and>
       (\<forall>ii<N_layers. c ! ii = tensor (lambdavec ! ii))"
  by (simp add: c2_tensor)

lemma less_3_cases: "(a::nat) < 3 \<Longrightarrow> a = 0 \<or> a = 1 \<or> a = 2"
  by auto

lemma tensor_symmetric:
  assumes "a < 3" "b < 3"
  shows "length (tensor l ! a) = 3" "tensor l ! a ! b = tensor l ! b ! a"
    "a \<noteq> b \<Longrightarrow> tensor l ! a ! b = 0"
  using less_3_cases [OF assms(1)] less_3_cases [OF assms(2)]
  by (auto simp: tensor_entries)

text \<open>
  C4. The construction of \<open>c2\<close> succeeds and gives \<open>N_layers\<close> matrices of shape
  \<open>(3, 3)\<close>; each equals its transpose, and each entry off the diagonal is zero.
\<close>

theorem c2_symmetric:
  "\<exists>c. (c2 :: 'e fault + real list list list) = Inr c \<and> length c = N_layers \<and>
     (\<forall>ii<N_layers. length (c ! ii) = 3 \<and>
        (\<forall>a<3. length (c ! ii ! a) = 3 \<and>
           (\<forall>b<3. c ! ii ! a ! b = c ! ii ! b ! a \<and> (a \<noteq> b \<longrightarrow> c ! ii ! a ! b = 0))))"
proof -
  let ?c = "map tensor lambdavec"
  have "length (?c ! ii) = 3 \<and>
        (\<forall>a<3. length (?c ! ii ! a) = 3 \<and>
           (\<forall>b<3. ?c ! ii ! a ! b = ?c ! ii ! b ! a \<and> (a \<noteq> b \<longrightarrow> ?c ! ii ! a ! b = 0)))"
    if "ii < N_layers" for ii
    using that tensor_symmetric [of _ _ "lambdavec ! ii"]
    by (simp add: tensor_entries)
  then show ?thesis
    by (intro exI [of _ ?c]) (simp add: c2_tensor)
qed

theorem c2_symmetric_witness:
  "\<exists>c. (c2 :: unit fault + real list list list) = Inr c \<and> (0::nat) < N_layers \<and> (0::nat) < 3 \<and>
     (1::nat) < 3 \<and> c ! 0 ! 0 ! 1 = c ! 0 ! 1 ! 0 \<and> c ! 0 ! 0 ! 1 = 0"
proof -
  from c2_symmetric [where ?'e = unit] obtain c where c: "c2 = (Inr c :: unit fault + _)"
    and sym: "\<forall>ii<N_layers. length (c ! ii) = 3 \<and>
        (\<forall>a<3. length (c ! ii ! a) = 3 \<and>
           (\<forall>b<3. c ! ii ! a ! b = c ! ii ! b ! a \<and> (a \<noteq> b \<longrightarrow> c ! ii ! a ! b = 0)))"
    by blast
  have n: "(0::nat) < N_layers" by (simp add: N_layers_def)
  have a: "(0::nat) < 3" and b: "(1::nat) < 3" by simp_all
  from sym n a have "\<forall>b<3. c ! 0 ! 0 ! b = c ! 0 ! b ! 0 \<and> ((0::nat) \<noteq> b \<longrightarrow> c ! 0 ! 0 ! b = 0)"
    by blast
  with b have "c ! 0 ! 0 ! 1 = c ! 0 ! 1 ! 0 \<and> ((0::nat) \<noteq> 1 \<longrightarrow> c ! 0 ! 0 ! 1 = 0)"
    by blast
  then have "c ! 0 ! 0 ! 1 = c ! 0 ! 1 ! 0 \<and> c ! 0 ! 0 ! 1 = 0"
    by simp
  with c n a b show ?thesis by blast
qed

lemma tensor_diag:
  "tensor l ! 0 ! 0 = 3 / 10 * (1 - l)" "tensor l ! 1 ! 1 = 7 / 10 * (1 - l)"
  "tensor l ! 2 ! 2 = l"
  by (simp_all add: tensor_def diag3_def)

lemma tensor_trace: "tensor l ! 0 ! 0 + tensor l ! 1 ! 1 + tensor l ! 2 ! 2 = 1"
  unfolding tensor_diag by (simp add: field_simps)

lemma tensor_range:
  assumes "1 / 2 \<le> l" "l \<le> 9 / 10"
  shows "0 \<le> tensor l ! 0 ! 0" "tensor l ! 0 ! 0 \<le> 1" "0 \<le> tensor l ! 1 ! 1"
    "tensor l ! 1 ! 1 \<le> 1" "0 \<le> tensor l ! 2 ! 2" "tensor l ! 2 ! 2 \<le> 1"
  using assms unfolding tensor_diag by simp_all

lemma tensor_max:
  assumes "1 / 2 \<le> l"
  shows "tensor l ! 0 ! 0 < tensor l ! 2 ! 2" "tensor l ! 1 ! 1 < tensor l ! 2 ! 2"
  using assms unfolding tensor_diag by simp_all

text \<open>
  C8. In every layer the eigenvalue \<open>lambdavec[ii]\<close> lies in \<open>[1/2, 9/10]\<close>, the diagonal
  of the tensor is \<open>3/10*(1-lambda)\<close>, \<open>7/10*(1-lambda)\<close>, \<open>lambda\<close>, each of the three
  entries lies in \<open>[0, 1]\<close>, and they sum to \<open>1\<close>.
\<close>

theorem c2_unit_trace:
  "\<exists>c. (c2 :: 'e fault + real list list list) = Inr c \<and>
     (\<forall>ii<N_layers.
        1 / 2 \<le> lambdavec ! ii \<and> lambdavec ! ii \<le> 9 / 10 \<and>
        c ! ii ! 0 ! 0 = 3 / 10 * (1 - lambdavec ! ii) \<and>
        c ! ii ! 1 ! 1 = 7 / 10 * (1 - lambdavec ! ii) \<and>
        c ! ii ! 2 ! 2 = lambdavec ! ii \<and>
        0 \<le> c ! ii ! 0 ! 0 \<and> c ! ii ! 0 ! 0 \<le> 1 \<and>
        0 \<le> c ! ii ! 1 ! 1 \<and> c ! ii ! 1 ! 1 \<le> 1 \<and>
        0 \<le> c ! ii ! 2 ! 2 \<and> c ! ii ! 2 ! 2 \<le> 1 \<and>
        c ! ii ! 0 ! 0 + c ! ii ! 1 ! 1 + c ! ii ! 2 ! 2 = 1)"
proof (intro exI conjI allI impI)
  show "(c2 :: 'e fault + real list list list) = Inr (map tensor lambdavec)"
    by (rule c2_tensor)
next
  fix ii assume ii: "ii < N_layers"
  then have eq: "map tensor lambdavec ! ii = tensor (lambdavec ! ii)"
    by simp
  note b = lambdavec_bounds [OF ii]
  show "1 / 2 \<le> lambdavec ! ii" "lambdavec ! ii \<le> 9 / 10"
    by (rule b)+
  show "map tensor lambdavec ! ii ! 0 ! 0 = 3 / 10 * (1 - lambdavec ! ii)"
    "map tensor lambdavec ! ii ! 1 ! 1 = 7 / 10 * (1 - lambdavec ! ii)"
    "map tensor lambdavec ! ii ! 2 ! 2 = lambdavec ! ii"
    unfolding eq by (rule tensor_diag)+
  show "0 \<le> map tensor lambdavec ! ii ! 0 ! 0" "map tensor lambdavec ! ii ! 0 ! 0 \<le> 1"
    "0 \<le> map tensor lambdavec ! ii ! 1 ! 1" "map tensor lambdavec ! ii ! 1 ! 1 \<le> 1"
    "0 \<le> map tensor lambdavec ! ii ! 2 ! 2" "map tensor lambdavec ! ii ! 2 ! 2 \<le> 1"
    unfolding eq by (rule tensor_range [OF b])+
  show "map tensor lambdavec ! ii ! 0 ! 0 + map tensor lambdavec ! ii ! 1 ! 1
          + map tensor lambdavec ! ii ! 2 ! 2 = 1"
    unfolding eq by (rule tensor_trace)
qed

theorem c2_unit_trace_witness:
  "\<exists>c. (c2 :: unit fault + real list list list) = Inr c \<and> (0::nat) < N_layers \<and>
     c ! 0 ! 0 ! 0 + c ! 0 ! 1 ! 1 + c ! 0 ! 2 ! 2 = 1 \<and> c ! 0 ! 2 ! 2 = lambdavec ! 0 \<and>
     lambdavec ! 0 = 1 / 2"
proof -
  from c2_unit_trace [where ?'e = unit] obtain c where c: "c2 = (Inr c :: unit fault + _)"
    and tr: "\<forall>ii<N_layers. c ! ii ! 2 ! 2 = lambdavec ! ii \<and>
        c ! ii ! 0 ! 0 + c ! ii ! 1 ! 1 + c ! ii ! 2 ! 2 = 1"
    by blast
  have n: "(0::nat) < N_layers" by (simp add: N_layers_def)
  with tr have "c ! 0 ! 0 ! 0 + c ! 0 ! 1 ! 1 + c ! 0 ! 2 ! 2 = 1" "c ! 0 ! 2 ! 2 = lambdavec ! 0"
    by blast+
  moreover have "lambdavec ! 0 = 1 / 2"
    using lambdavec_nth [OF n] by simp
  ultimately show ?thesis using c n by blast
qed

lemma mat_vec_tensor:
  "mat_vec (tensor l) [a, b, c] = [3 / 10 * (1 - l) * a, 7 / 10 * (1 - l) * b, l * c]"
  by (simp add: mat_vec_def tensor_def diag3_def)

lemma tensor_eigen_le:
  assumes l: "1 / 2 \<le> l" and len: "length v = 3" and nz: "\<exists>a\<in>set v. a \<noteq> 0"
    and eig: "mat_vec (tensor l) v = map ((*) \<mu>) v"
  shows "\<mu> \<le> l"
proof -
  from len obtain a b c where v: "v = [a, b, c]"
    by (auto simp: length_Suc_conv eval_nat_numeral)
  from eig have e: "3 / 10 * (1 - l) * a = \<mu> * a" "7 / 10 * (1 - l) * b = \<mu> * b" "l * c = \<mu> * c"
    by (simp_all add: v mat_vec_tensor)
  from nz v consider "a \<noteq> 0" | "b \<noteq> 0" | "c \<noteq> 0" by auto
  then show ?thesis
  proof cases
    case 1
    with e have "\<mu> = 3 / 10 * (1 - l)" by simp
    with l show ?thesis by simp
  next
    case 2
    with e have "\<mu> = 7 / 10 * (1 - l)" by simp
    with l show ?thesis by simp
  next
    case 3
    with e show ?thesis by simp
  qed
qed

text \<open>
  C9. In every layer the vertical entry \<open>c2[ii][2][2] = lambdavec[ii] \<ge> 1/2\<close> is strictly
  greater than the two other diagonal entries. It is an eigenvalue of the tensor (with
  the vertical axis as eigenvector), and no eigenvalue of the tensor exceeds it.
\<close>

theorem vertical_single_maximum:
  "\<exists>c. (c2 :: 'e fault + real list list list) = Inr c \<and>
     (\<forall>ii<N_layers.
        c ! ii ! 2 ! 2 = lambdavec ! ii \<and> 1 / 2 \<le> lambdavec ! ii \<and>
        c ! ii ! 0 ! 0 = 3 / 10 * (1 - lambdavec ! ii) \<and>
        c ! ii ! 1 ! 1 = 7 / 10 * (1 - lambdavec ! ii) \<and>
        c ! ii ! 0 ! 0 < c ! ii ! 2 ! 2 \<and> c ! ii ! 1 ! 1 < c ! ii ! 2 ! 2 \<and>
        mat_vec (c ! ii) [0, 0, 1] = map ((*) (lambdavec ! ii)) [0, 0, 1] \<and>
        (\<forall>\<mu> v. length v = 3 \<and> (\<exists>a\<in>set v. a \<noteq> 0) \<and> mat_vec (c ! ii) v = map ((*) \<mu>) v
           \<longrightarrow> \<mu> \<le> lambdavec ! ii))"
proof (intro exI conjI allI impI)
  show "(c2 :: 'e fault + real list list list) = Inr (map tensor lambdavec)"
    by (rule c2_tensor)
next
  fix ii assume ii: "ii < N_layers"
  then have eq: "map tensor lambdavec ! ii = tensor (lambdavec ! ii)"
    by simp
  note b = lambdavec_bounds [OF ii]
  show "1 / 2 \<le> lambdavec ! ii"
    by (rule b)
  show "map tensor lambdavec ! ii ! 2 ! 2 = lambdavec ! ii"
    "map tensor lambdavec ! ii ! 0 ! 0 = 3 / 10 * (1 - lambdavec ! ii)"
    "map tensor lambdavec ! ii ! 1 ! 1 = 7 / 10 * (1 - lambdavec ! ii)"
    unfolding eq by (rule tensor_diag)+
  show "map tensor lambdavec ! ii ! 0 ! 0 < map tensor lambdavec ! ii ! 2 ! 2"
    "map tensor lambdavec ! ii ! 1 ! 1 < map tensor lambdavec ! ii ! 2 ! 2"
    unfolding eq by (rule tensor_max [OF b(1)])+
  show "mat_vec (map tensor lambdavec ! ii) [0, 0, 1] = map ((*) (lambdavec ! ii)) [0, 0, 1]"
    unfolding eq by (simp add: mat_vec_tensor)
  fix \<mu> v
  assume "length v = 3 \<and> (\<exists>a\<in>set v. a \<noteq> 0) \<and>
          mat_vec (map tensor lambdavec ! ii) v = map ((*) \<mu>) v"
  then show "\<mu> \<le> lambdavec ! ii"
    unfolding eq using tensor_eigen_le [OF b(1)] by blast
qed

theorem vertical_single_maximum_witness:
  "\<exists>c. (c2 :: unit fault + real list list list) = Inr c \<and> (0::nat) < N_layers \<and>
     c ! 0 ! 2 ! 2 = 1 / 2 \<and> c ! 0 ! 0 ! 0 < c ! 0 ! 2 ! 2 \<and> c ! 0 ! 1 ! 1 < c ! 0 ! 2 ! 2"
proof -
  from vertical_single_maximum [where ?'e = unit] obtain c where c: "c2 = (Inr c :: unit fault + _)"
    and mx: "\<forall>ii<N_layers. c ! ii ! 2 ! 2 = lambdavec ! ii \<and>
        c ! ii ! 0 ! 0 < c ! ii ! 2 ! 2 \<and> c ! ii ! 1 ! 1 < c ! ii ! 2 ! 2"
    by blast
  have n: "(0::nat) < N_layers" by (simp add: N_layers_def)
  with mx have "c ! 0 ! 2 ! 2 = lambdavec ! 0" "c ! 0 ! 0 ! 0 < c ! 0 ! 2 ! 2"
    "c ! 0 ! 1 ! 1 < c ! 0 ! 2 ! 2"
    by blast+
  moreover have "lambdavec ! 0 = 1 / 2"
    using lambdavec_nth [OF n] by simp
  ultimately have "c ! 0 ! 2 ! 2 = 1 / 2 \<and> c ! 0 ! 0 ! 0 < c ! 0 ! 2 ! 2 \<and> c ! 0 ! 1 ! 1 < c ! 0 ! 2 ! 2"
    by (simp only: simp_thms)
  with c n show ?thesis by blast
qed

subsection \<open>What the rows of \<^verbatim>\<open>nlm\<close> hold\<close>

lemma spectral_of_nat:
  assumes "k < N_layers"
  shows "spectral_of f (int k) = bnd (call (f (tensor (lambdavec ! k)))) (\<lambda>(row, lm). Inr (row_of row))"
  using assms by (simp add: spectral_of_def c2_tensor)

lemma final_row_nat:
  assumes "construct f = Inr (nlm, lm)" and "k < N_layers"
  shows "final_row f (int k) = Inr (nlm ! k)"
proof -
  from assms(1) obtain nlm1 where c: "converted f = Inr (nlm1, lm)"
    and n: "nlm = nlm1[0 := [nlm1 ! 0 ! 0, 0, 0, 0, 0, 0]]"
    by (auto simp: construct_Inr)
  from converted_Inr [OF c] have "length nlm1 = N_layers"
    by (simp add: shape6_def)
  with n assms show ?thesis
    by (simp add: final_row_def)
qed

lemma construct_all_ones:
  "construct all_ones = Inr ((replicate N_layers [1, 1, 1, 1, 1, 1])[0 := [1, 0, 0, 0, 0, 0]], Some ())"
  using converted_all_ones by (simp add: construct_Inr N_layers_def)

text \<open>
  C5, as stated, does not hold on row 0: with a conversion routine whose
  coefficients are all \<open>1\<close>, the row \<^verbatim>\<open>nlm[0]\<close> ends as \<open>[1, 0, 0, 0, 0, 0]\<close>, while the
  first component of \<^verbatim>\<open>c2_to_nlm(c2[0])\<close> is \<open>[1, 1, 1, 1, 1, 1]\<close>.
\<close>

theorem final_row_top_counterexample:
  "final_row all_ones 0 = Inr [1, 0, 0, 0, 0, 0] \<and>
   spectral_of all_ones 0 = Inr [1, 1, 1, 1, 1, 1] \<and>
   final_row all_ones 0 \<noteq> spectral_of all_ones 0"
proof -
  have n: "(0::nat) < N_layers" by (simp add: N_layers_def)
  have "final_row all_ones (int 0) = Inr [1, 0, 0, 0, 0, 0]"
    using final_row_nat [OF construct_all_ones n] n by simp
  moreover have "spectral_of all_ones (int 0) = Inr [1, 1, 1, 1, 1, 1]"
    using spectral_of_nat [OF n, of all_ones] by (simp add: all_ones_def)
  ultimately show ?thesis by simp
qed

text \<open>
  C5, amended. When lines 37 to 52 have run, every row \<^verbatim>\<open>nlm[ii]\<close> with \<open>ii \<ge> 1\<close> is the
  first component of \<^verbatim>\<open>c2_to_nlm(c2[ii])\<close>; of row 0 only entry 0 is, and its entries 1
  to 5 are \<open>0\<close>.
\<close>

theorem final_rows_converted:
  assumes "construct f = Inr (nlm, lm)"
  shows "(\<forall>ii. 1 \<le> ii \<and> ii < N_layers \<longrightarrow>
            final_row f (int ii) = Inr (nlm ! ii) \<and> spectral_of f (int ii) = Inr (nlm ! ii)) \<and>
         (\<exists>v. spectral_of f 0 = Inr v \<and> length v = 6 \<and>
            final_row f 0 = Inr [v ! 0, 0, 0, 0, 0, 0] \<and> nlm ! 0 = [v ! 0, 0, 0, 0, 0, 0])"
proof -
  from assms obtain nlm1 where c: "converted f = Inr (nlm1, lm)"
    and n: "nlm = nlm1[0 := [nlm1 ! 0 ! 0, 0, 0, 0, 0, 0]]"
    by (auto simp: construct_Inr)
  from converted_Inr [OF c] have len: "length nlm1 = N_layers"
    and rows: "\<forall>k<N_layers. \<exists>r l. f (tensor (lambdavec ! k)) = Inr (r, l) \<and> nlm1 ! k = row_of r"
    by (simp_all add: shape6_def)
  have spec: "spectral_of f (int k) = Inr (nlm1 ! k)" if "k < N_layers" for k
  proof -
    from rows that obtain r l where "f (tensor (lambdavec ! k)) = Inr (r, l)" "nlm1 ! k = row_of r"
      by blast
    then show ?thesis
      by (simp add: spectral_of_nat [OF that])
  qed
  have "final_row f (int ii) = Inr (nlm ! ii) \<and> spectral_of f (int ii) = Inr (nlm ! ii)"
    if "1 \<le> ii \<and> ii < N_layers" for ii
  proof -
    from that n have "nlm ! ii = nlm1 ! ii" by simp
    with that spec [of ii] final_row_nat [OF assms, of ii] show ?thesis by simp
  qed
  moreover have "\<exists>v. spectral_of f 0 = Inr v \<and> length v = 6 \<and>
      final_row f 0 = Inr [v ! 0, 0, 0, 0, 0, 0] \<and> nlm ! 0 = [v ! 0, 0, 0, 0, 0, 0]"
  proof -
    have z: "(0::nat) < N_layers" by (simp add: N_layers_def)
    from rows z obtain r l where "nlm1 ! 0 = row_of r" by blast
    then have "length (nlm1 ! 0) = 6" by simp
    moreover from n len z have "nlm ! 0 = [nlm1 ! 0 ! 0, 0, 0, 0, 0, 0]" by simp
    ultimately show ?thesis
      using spec [OF z] final_row_nat [OF assms z] by simp
  qed
  ultimately show ?thesis by blast
qed

theorem final_rows_converted_witness:
  "construct all_ones
     = Inr ((replicate N_layers [1, 1, 1, 1, 1, 1])[0 := [1, 0, 0, 0, 0, 0]], Some ()) \<and>
   (1::nat) \<le> 1 \<and> (1::nat) < N_layers \<and>
   final_row all_ones (int 1) = Inr [1, 1, 1, 1, 1, 1] \<and>
   spectral_of all_ones (int 1) = Inr [1, 1, 1, 1, 1, 1]"
proof -
  note h = construct_all_ones
  have i: "(1::nat) \<le> 1 \<and> (1::nat) < N_layers" by (simp add: N_layers_def)
  from final_rows_converted [OF h] i
  have "final_row all_ones (int 1)
          = Inr ((replicate N_layers [1, 1, 1, 1, 1, 1])[0 := [1, 0, 0, 0, 0, 0]] ! 1) \<and>
        spectral_of all_ones (int 1)
          = Inr ((replicate N_layers [1, 1, 1, 1, 1, 1])[0 := [1, 0, 0, 0, 0, 0]] ! 1)"
    by blast
  moreover have "(replicate N_layers [1, 1, 1, 1, 1, 1])[0 := [1, 0, 0, 0, 0, 0]] ! 1
      = [1, 1, 1, 1, 1, 1 :: complex]"
    by (simp add: N_layers_def)
  ultimately show ?thesis using h i by simp
qed

subsection \<open>The accesses of the conversion loop\<close>

text \<open>
  C10. Every index the conversion loop uses is in range: for each \<open>ii\<close> of
  \<^verbatim>\<open>np.arange(N_layers)\<close> the read \<^verbatim>\<open>c2[ii,:,:]\<close> finds its matrix, and the write
  \<^verbatim>\<open>nlm[ii,:] = ...\<close> into an array of shape \<open>(N_layers, 6)\<close> succeeds and keeps the
  shape; so the loop never ends in \<open>IndexError\<close>, whatever \<^verbatim>\<open>c2_to_nlm\<close> does.
\<close>

theorem conversion_loop_in_bounds:
  fixes f :: "('e, 'lm) c2_to_nlm"
  shows "\<exists>c. (c2 :: 'e fault + real list list list) = Inr c \<and> length c = N_layers \<and>
           shape6 N_layers (zeros2 N_layers 6) \<and>
           (\<forall>ii\<in>set (arange N_layers).
              getitem c ii \<noteq> None \<and>
              (\<forall>nlm. shape6 N_layers nlm \<longrightarrow>
                 getitem nlm ii \<noteq> None \<and>
                 (\<forall>row. \<exists>nlm'. assign_row nlm ii (row_of row)
                            = (Inr nlm' :: 'e fault + complex list list) \<and>
                          shape6 N_layers nlm'))) \<and>
           converted f \<noteq> Inl IndexError \<and>
           (\<forall>e. converted f = Inl e \<longrightarrow> (\<exists>x. e = External x))"
proof -
  let ?c = "map tensor lambdavec"
  have c: "(c2 :: 'e fault + real list list list) = Inr ?c"
    by (rule c2_tensor)
  have len: "length ?c = N_layers"
    by simp
  have z: "shape6 N_layers (zeros2 N_layers 6)"
    by (rule shape6_zeros)
  have noidx: "converted f \<noteq> Inl IndexError"
    using converted_Inl [of f IndexError] by auto
  have ext: "\<forall>e. converted f = Inl e \<longrightarrow> (\<exists>x. e = External x)"
    using converted_Inl [of f] by blast
  have acc: "getitem ?c ii \<noteq> None \<and>
      (\<forall>nlm. shape6 N_layers nlm \<longrightarrow>
         getitem nlm ii \<noteq> None \<and>
         (\<forall>row. \<exists>nlm'. assign_row nlm ii (row_of row)
                    = (Inr nlm' :: 'e fault + complex list list) \<and>
                  shape6 N_layers nlm'))"
    if "ii \<in> set (arange N_layers)" for ii
  proof -
    from that have ii: "0 \<le> ii" "ii < int N_layers"
      by (simp_all add: arange_range)
    then have rd: "getitem ?c ii \<noteq> None"
      by (simp add: getitem_in)
    have wr: "getitem nlm ii \<noteq> None \<and>
         (\<forall>row. \<exists>nlm'. assign_row nlm ii (row_of row)
                    = (Inr nlm' :: 'e fault + complex list list) \<and>
                  shape6 N_layers nlm')"
      if sh: "shape6 N_layers nlm" for nlm
    proof -
      from sh ii have "getitem nlm ii \<noteq> None"
        by (simp add: getitem_in shape6_def)
      moreover have "\<exists>nlm'. assign_row nlm ii (row_of row)
                    = (Inr nlm' :: 'e fault + complex list list) \<and> shape6 N_layers nlm'" for row
        using assign_row_shape6 [OF sh ii, of row, where ?'a = 'e]
          shape6_update [OF sh, of "nat ii" row]
        by blast
      ultimately show ?thesis by blast
    qed
    from rd wr show ?thesis by blast
  qed
  from c len z noidx ext acc show ?thesis
    by blast
qed

theorem conversion_loop_in_bounds_witness:
  "\<exists>c. (c2 :: string fault + real list list list) = Inr c \<and>
     (0::int) \<in> set (arange N_layers) \<and> getitem c 0 \<noteq> None \<and>
     shape6 N_layers (zeros2 N_layers 6) \<and>
     getitem (zeros2 N_layers 6 :: complex list list) 0 \<noteq> None"
proof -
  from conversion_loop_in_bounds [of all_ones] obtain c where
    c: "c2 = (Inr c :: string fault + real list list list)"
    and sh: "shape6 N_layers (zeros2 N_layers 6)"
    and acc: "\<forall>ii\<in>set (arange N_layers).
              getitem c ii \<noteq> None \<and>
              (\<forall>nlm. shape6 N_layers nlm \<longrightarrow>
                 getitem nlm ii \<noteq> None \<and>
                 (\<forall>row. \<exists>nlm'. assign_row nlm ii (row_of row)
                            = (Inr nlm' :: string fault + complex list list) \<and>
                          shape6 N_layers nlm'))"
    by blast
  have m: "(0::int) \<in> set (arange N_layers)"
    by (simp add: arange_range N_layers_def)
  with acc have "getitem c 0 \<noteq> None"
    "\<forall>nlm. shape6 N_layers nlm \<longrightarrow> getitem nlm 0 \<noteq> None"
    by blast+
  with sh have "getitem c 0 \<noteq> None" "getitem (zeros2 N_layers 6 :: complex list list) 0 \<noteq> None"
    by blast+
  with c m sh show ?thesis by blast
qed

subsection \<open>Values handed back by the library\<close>

lemma bound_simps [simp]: "bound None = Inl NameError" "bound (Some v) = Inr v"
  by (simp_all add: bound_def)

lemma attribute_simps [simp]: "attribute None = Inl AttributeError" "attribute (Some v) = Inr v"
  by (simp_all add: attribute_def)

lemma bound_eq_Inl: "bound r = Inl e \<longleftrightarrow> r = None \<and> e = NameError"
  by (cases r) auto

lemma attribute_eq_Inl: "attribute r = Inl e \<longleftrightarrow> r = None \<and> e = AttributeError"
  by (cases r) auto

lemma unpack2_Inl: "unpack2 v = Inl e \<Longrightarrow> e = ValueError \<or> e = TypeError"
  by (induction v rule: unpack2.induct) simp_all

lemma unpack5_Inl: "unpack5 v = Inl e \<Longrightarrow> e = ValueError \<or> e = TypeError"
  by (induction v rule: unpack5.induct) simp_all

lemma unpack_first_Inl: "unpack_first v = Inl e \<Longrightarrow> e = ValueError \<or> e = TypeError"
  by (induction v rule: unpack_first.induct) simp_all

lemma collect_Inl:
  "collect rs = Inl e \<Longrightarrow> \<exists>r\<in>set rs. r = Inl e"
  by (induction rs) (auto simp: bnd_eq_Inl)

lemma collect_Inr:
  "(\<And>r. r \<in> set rs \<Longrightarrow> f r = Inr (g r)) \<Longrightarrow> collect (map f rs) = Inr (map g rs)"
  by (induction rs) simp_all

lemma entries_Inl:
  "entries v = (Inl e :: 'e fault + _) \<Longrightarrow> e = ValueError \<or> e = TypeError"
proof (induction v)
  case (Scalar c)
  then show ?case by simp
next
  case (Object ob)
  then show ?case by simp
next
  case (Seq vs)
  show ?case
  proof (cases "collect (map entries vs) :: 'e fault + _")
    case (Inl e')
    with Seq.prems have "e' = e" by simp
    with Inl collect_Inl [of "map entries vs" e] obtain v where "v \<in> set vs" "entries v = Inl e"
      by auto
    with Seq.IH show ?thesis by blast
  next
    case (Inr es)
    with Seq.prems show ?thesis
      by (auto split: list.splits if_splits)
  qed
qed

lemma as_row_Inl: "as_row v = Inl e \<Longrightarrow> e = ValueError \<or> e = TypeError"
  by (auto simp: as_row_def bnd_eq_Inl dest: entries_Inl split: if_splits)

lemma line50_Inl: "line50 v = Inl e \<Longrightarrow> e = ValueError \<or> e = TypeError"
  by (auto simp: line50_def bnd_eq_Inl dest: unpack2_Inl as_row_Inl split: option.splits)

lemma entries_scalars:
  "entries (Seq (map Scalar cs)) = (Inr ([length cs], cs) :: 'e fault + _)"
proof -
  let ?es = "map (\<lambda>c. ([]::nat list, [c])) cs"
  have "collect (map (\<lambda>c. entries (Scalar c)) cs)
      = (Inr ?es :: 'e fault + (nat list \<times> complex list) list)"
    by (rule collect_Inr) simp
  then have col: "collect (map entries (map Scalar cs))
      = (Inr ?es :: 'e fault + (nat list \<times> complex list) list)"
    by (simp add: comp_def)
  have cat: "concat (map snd ?es) = cs"
    by (induction cs) simp_all
  have all: "list_all (\<lambda>e. fst e = []) ?es"
    by (simp add: list_all_iff)
  have cs: "(case ?es of [] \<Rightarrow> Inr ([0], [])
        | (s, d) # _ \<Rightarrow>
            if list_all (\<lambda>e. fst e = s) ?es then Inr (length ?es # s, concat (map snd ?es))
            else Inl ValueError) = (Inr ([length cs], cs) :: 'e fault + _)"
  proof (cases cs)
    case Nil
    then show ?thesis by simp
  next
    case (Cons a list)
    with all cat show ?thesis by simp
  qed
  show ?thesis
    by (simp only: entries.simps col bnd_Inr cs)
qed

lemma as_row_scalars: "as_row (Seq (map Scalar cs)) = Inr cs"
  unfolding as_row_def entries_scalars by simp

lemma line50_raw:
  "line50 (Seq [Seq (map Scalar (row_of r)), lm]) = Inr (row_of r, lm)"
  by (simp add: line50_def as_row_scalars broadcast_def)

subsection \<open>The conversion loop on what the library hands back\<close>

lemma assign_row_broadcast:
  assumes "shape6 n a" "0 \<le> i" "i < int n"
  shows "assign_row a i row
    = (case broadcast 6 row of None \<Rightarrow> Inl ValueError | Some w \<Rightarrow> Inr (a[nat i := w]))"
proof -
  from assms have "nat i < length a" "length (a ! nat i) = 6"
    by (auto simp: shape6_def)
  with assms show ?thesis
    by (simp add: assign_row_def getitem_in setitem_in shape6_def split: option.splits)
qed

lemma broadcast_length: "broadcast n row = Some w \<Longrightarrow> length w = n"
  by (auto simp: broadcast_def split: if_splits)

lemma shape6_update_row: "shape6 n a \<Longrightarrow> length w = 6 \<Longrightarrow> shape6 n (a[k := w])"
  by (auto simp: shape6_def dest!: set_update_subset_insert [THEN subsetD])

lemma convert_loop_raw_step:
  fixes f :: "real list list \<Rightarrow> 'e + 'o pyval"
  assumes "shape6 n nlm" "length c = n" "0 \<le> i" "i < int n"
  shows "convert_loop_raw f c (i # rest) (nlm, lm)
    = bnd (call (f (c ! nat i)))
        (\<lambda>v. bnd (line50 v) (\<lambda>(w, lm'). convert_loop_raw f c rest (nlm[nat i := w], Some lm')))"
proof (cases "f (c ! nat i)")
  case (Inl ex)
  with assms show ?thesis by (simp add: getitem_in)
next
  case (Inr v)
  show ?thesis
  proof (cases "unpack2 v :: 'e fault + _")
    case (Inl e)
    with Inr assms show ?thesis by (simp add: getitem_in line50_def)
  next
    case u: (Inr p)
    obtain a lm' where p: "p = (a, lm')" by (cases p)
    show ?thesis
    proof (cases "as_row a :: 'e fault + _")
      case (Inl e)
      with Inr u p assms show ?thesis by (simp add: getitem_in line50_def)
    next
      case r: (Inr row)
      with Inr u p assms show ?thesis
        by (simp add: getitem_in line50_def assign_row_broadcast [OF assms(1,3,4)]
            split: option.splits)
    qed
  qed
qed

lemma line50_length: "line50 v = Inr (w, lm) \<Longrightarrow> length w = 6"
  by (auto simp: line50_def bnd_eq_Inr dest: broadcast_length split: option.splits)

lemma convert_loop_raw_Inr:
  fixes f :: "real list list \<Rightarrow> 'e + 'o pyval"
  assumes "convert_loop_raw f c is (nlm, lm) = Inr (nlm', lm')"
    and "shape6 n nlm" and "length c = n" and "\<forall>i\<in>set is. 0 \<le> i \<and> i < int n"
  shows "shape6 n nlm' \<and> (is \<noteq> [] \<longrightarrow> (\<exists>l. lm' = Some l)) \<and>
         (\<forall>i\<in>set is. \<exists>v w l. f (c ! nat i) = Inr v \<and> line50 v = (Inr (w, l) :: 'e fault + _))"
  using assms
proof (induction "is" arbitrary: nlm lm)
  case Nil
  then show ?case by simp
next
  case (Cons i rest)
  from Cons.prems have i: "0 \<le> i" "i < int n" by simp_all
  note step = convert_loop_raw_step [OF Cons.prems(2,3) i, of f rest lm]
  from Cons.prems(1) [unfolded step] obtain v p where v: "f (c ! nat i) = Inr v"
    and l: "line50 v = (Inr p :: 'e fault + _)"
    and rest0: "(case p of (w, lm') \<Rightarrow> convert_loop_raw f c rest (nlm[nat i := w], Some lm'))
        = Inr (nlm', lm')"
    by (auto simp: bnd_eq_Inr)
  obtain w l' where p: "p = (w, l')" by (cases p)
  with rest0 have rest: "convert_loop_raw f c rest (nlm[nat i := w], Some l') = Inr (nlm', lm')"
    by simp
  from l p have "length w = 6" by (auto dest: line50_length)
  with Cons.prems(2) have sh: "shape6 n (nlm[nat i := w])"
    by (rule shape6_update_row)
  from Cons.prems have idx: "\<forall>i\<in>set rest. 0 \<le> i \<and> i < int n" by simp
  note IH = Cons.IH [OF rest sh \<open>length c = n\<close> idx]
  have lm: "\<exists>l. lm' = Some l"
  proof (cases "rest = []")
    case True
    with rest show ?thesis by auto
  next
    case False
    with IH show ?thesis by blast
  qed
  from v l p have "\<exists>v w l. f (c ! nat i) = Inr v \<and> line50 v = (Inr (w, l) :: 'e fault + _)"
    by blast
  with IH lm show ?case by simp
qed

lemma convert_loop_raw_Inl:
  fixes f :: "real list list \<Rightarrow> 'e + 'o pyval"
  assumes "convert_loop_raw f c is (nlm, lm) = Inl e"
    and "shape6 n nlm" and "length c = n" and "\<forall>i\<in>set is. 0 \<le> i \<and> i < int n"
  shows "\<exists>i\<in>set is. (\<exists>ex. f (c ! nat i) = Inl ex \<and> e = External ex) \<or>
           (\<exists>v. f (c ! nat i) = Inr v \<and> line50 v = Inl e)"
  using assms
proof (induction "is" arbitrary: nlm lm)
  case Nil
  then show ?case by simp
next
  case (Cons i rest)
  from Cons.prems have i: "0 \<le> i" "i < int n" by simp_all
  note step = convert_loop_raw_step [OF Cons.prems(2,3) i, of f rest lm]
  show ?case
  proof (cases "f (c ! nat i)")
    case (Inl ex)
    with Cons.prems(1) [unfolded step] have "e = External ex" by simp
    with Inl show ?thesis by auto
  next
    case (Inr v)
    show ?thesis
    proof (cases "line50 v :: 'e fault + _")
      case (Inl e')
      with Inr Cons.prems(1) [unfolded step] have "e' = e" by simp
      with Inl Inr show ?thesis by auto
    next
      case l: (Inr p)
      obtain w l' where p: "p = (w, l')" by (cases p)
      with Inr l Cons.prems(1) [unfolded step]
      have rest: "convert_loop_raw f c rest (nlm[nat i := w], Some l') = Inl e"
        by simp
      from l p have "length w = 6" by (auto dest: line50_length)
      with Cons.prems(2) have sh: "shape6 n (nlm[nat i := w])"
        by (rule shape6_update_row)
      from Cons.prems have idx: "\<forall>i\<in>set rest. 0 \<le> i \<and> i < int n" by simp
      from Cons.IH [OF rest sh \<open>length c = n\<close> idx] show ?thesis by auto
    qed
  qed
qed

lemma construct_raw_Inr:
  fixes f :: "real list list \<Rightarrow> 'e + 'o pyval"
  assumes "construct_raw f = Inr (nlm, lm)"
  shows "shape6 N_layers nlm \<and> (\<exists>l. lm = Some l) \<and>
         (\<forall>k<N_layers. \<exists>v w l. f (tensor (lambdavec ! k)) = Inr v \<and>
            line50 v = (Inr (w, l) :: 'e fault + _))"
proof -
  let ?c = "map tensor lambdavec"
  from assms obtain nlm1 where loop:
    "convert_loop_raw f ?c (arange N_layers) (zeros2 N_layers 6, None) = Inr (nlm1, lm)"
    and iso: "isotropic_top nlm1 = (Inr nlm :: 'e fault + _)"
    by (auto simp: construct_raw_def c2_tensor bnd_eq_Inr)
  have idx: "\<forall>i\<in>set (arange N_layers). 0 \<le> i \<and> i < int N_layers"
    by (simp add: arange_range)
  have ne: "arange N_layers \<noteq> []"
    by (simp add: arange_def N_layers_def)
  have len: "length ?c = N_layers" by simp
  note r = convert_loop_raw_Inr [OF loop shape6_zeros len idx]
  from r have sh1: "shape6 N_layers nlm1" by (rule conjunct1)
  from r ne have lm: "\<exists>l. lm = Some l" by blast
  from r have all: "\<forall>i\<in>set (arange N_layers). \<exists>v w l. f (?c ! nat i) = Inr v \<and>
        line50 v = (Inr (w, l) :: 'e fault + _)"
    by blast
  from iso sh1 have "nlm = nlm1[0 := [nlm1 ! 0 ! 0, 0, 0, 0, 0, 0]]"
    by (simp add: isotropic_top_shape6)
  with sh1 have sh: "shape6 N_layers nlm"
    by (simp add: shape6_update_row)
  have "\<exists>v w l. f (tensor (lambdavec ! k)) = Inr v \<and> line50 v = (Inr (w, l) :: 'e fault + _)"
    if "k < N_layers" for k
  proof -
    from that have "int k \<in> set (arange N_layers)" by (simp add: arange_range)
    with all have "\<exists>v w l. f (?c ! nat (int k)) = Inr v \<and>
        line50 v = (Inr (w, l) :: 'e fault + _)"
      by blast
    with that show ?thesis by simp
  qed
  with sh lm show ?thesis by blast
qed

lemma construct_raw_Inl:
  fixes f :: "real list list \<Rightarrow> 'e + 'o pyval"
  assumes "construct_raw f = Inl e"
  shows "\<exists>k<N_layers. (\<exists>ex. f (tensor (lambdavec ! k)) = Inl ex \<and> e = External ex) \<or>
           (\<exists>v. f (tensor (lambdavec ! k)) = Inr v \<and> line50 v = Inl e)"
proof -
  let ?c = "map tensor lambdavec"
  let ?loop = "convert_loop_raw f ?c (arange N_layers) (zeros2 N_layers 6, None)"
  have idx: "\<forall>i\<in>set (arange N_layers). 0 \<le> i \<and> i < int N_layers"
    by (simp add: arange_range)
  have loop: "?loop = Inl e"
  proof (cases ?loop)
    case (Inl e')
    with assms show ?thesis by (simp add: construct_raw_def c2_tensor)
  next
    case (Inr s)
    obtain nlm1 lm where s: "s = (nlm1, lm)" by (cases s)
    with Inr convert_loop_raw_Inr [OF _ shape6_zeros _ idx, of f ?c None nlm1 lm]
    have "shape6 N_layers nlm1" by simp
    with Inr s assms show ?thesis
      by (simp add: construct_raw_def c2_tensor isotropic_top_shape6)
  qed
  from convert_loop_raw_Inl [OF loop shape6_zeros _ idx]
  obtain i where i: "0 \<le> i" "i < int N_layers"
    and r: "(\<exists>ex. f (?c ! nat i) = Inl ex \<and> e = External ex) \<or>
           (\<exists>v. f (?c ! nat i) = Inr v \<and> line50 v = Inl e)"
    by (auto simp: arange_range)
  from i have "nat i < N_layers" by simp
  with r show ?thesis
    by (intro exI [of _ "nat i"]) simp
qed

text \<open>
  On a routine that hands back six coefficients and a table, the loop on the values
  handed back is the loop of lines 37 to 52.
\<close>

lemma convert_loop_raw_of:
  fixes f :: "('e, 'o pyval) c2_to_nlm"
  shows "convert_loop_raw (raw_of f) c is s = convert_loop f c is s"
proof (induction f c "is" s rule: convert_loop.induct)
  case (1 f c s)
  then show ?case by simp
next
  case (2 f c ii rest nlm lm)
  show ?case
  proof (cases "getitem c ii")
    case None
    then show ?thesis by simp
  next
    case (Some m)
    show ?thesis
    proof (cases "f m")
      case (Inl ex)
      with Some show ?thesis by (simp add: raw_of_def)
    next
      case (Inr p)
      obtain r l where p: "p = (r, l)" by (cases p)
      show ?thesis
      proof (cases "assign_row nlm ii (row_of r) :: 'e fault + _")
        case (Inl e)
        with Some Inr p show ?thesis by (simp add: raw_of_def as_row_scalars)
      next
        case a: (Inr nlm')
        with Some Inr p "2.IH" show ?thesis
          by (simp add: raw_of_def as_row_scalars)
      qed
    qed
  qed
qed

lemma construct_raw_of: "construct_raw (raw_of f) = construct f"
  by (simp add: construct_raw_def construct_def converted_def convert_loop_raw_of c2_tensor)

subsection \<open>The plots and the second cell\<close>

lemma bound_eq_Inr [simp]: "bound r = Inr v \<longleftrightarrow> r = Some v"
  by (cases r) auto

lemma attribute_eq_Inr [simp]: "attribute r = Inr v \<longleftrightarrow> r = Some v"
  by (cases r) auto

lemma py_int_half_layers: "py_int (real N_layers / 2) = 50"
  by (simp add: py_int_def N_layers_def)

lemma getitem_plot_indices:
  assumes "length xs = N_layers" and "I \<in> set [1, py_int (real N_layers / 2), - 1]"
  shows "\<exists>v. getitem xs I = Some v"
  using assms unfolding py_int_half_layers
  by (auto simp: getitem_def norm_index_def N_layers_def)

lemma plot_ODFs_Inl:
  assumes "plot_ODFs x nlm (Some lm) Is = Inl e"
    and "\<forall>I\<in>set Is. (\<exists>row. getitem nlm I = Some row) \<and> (\<exists>zI. getitem z I = Some zI)"
  shows "\<exists>I\<in>set Is. \<exists>row zI ex. getitem nlm I = Some row \<and> getitem z I = Some zI \<and>
           plot_ODF x row lm 2 (py_int (zI * (1 / 1000))) = Inl ex \<and> e = External ex"
  using assms
proof (induction Is)
  case Nil
  then show ?case by simp
next
  case (Cons I rest)
  from Cons.prems(2) obtain row zI where g: "getitem nlm I = Some row" "getitem z I = Some zI"
    by auto
  show ?case
  proof (cases "plot_ODF x row lm 2 (py_int (zI * (1 / 1000)))")
    case (Inl ex)
    with Cons.prems(1) g have "e = External ex" by simp
    with Inl g show ?thesis by auto
  next
    case (Inr u)
    with Cons.prems(1) g have "plot_ODFs x nlm (Some lm) rest = Inl e" by simp
    with Cons.IH Cons.prems(2) show ?thesis by auto
  qed
qed

lemma plot_ODFs_Inr:
  assumes "plot_ODFs x nlm (Some lm) Is = Inr u"
    and "I \<in> set Is" and "getitem nlm I = Some row" and "getitem z I = Some zI"
  shows "\<exists>v. plot_ODF x row lm 2 (py_int (zI * (1 / 1000))) = Inr v"
  using assms(1,2)
proof (induction Is)
  case Nil
  then show ?case by simp
next
  case (Cons J rest)
  from Cons.prems(1) obtain row' zI' v where
    g: "getitem nlm J = Some row'" "getitem z J = Some zI'"
    and c: "plot_ODF x row' lm 2 (py_int (zI' * (1 / 1000))) = Inr v"
    and r: "plot_ODFs x nlm (Some lm) rest = Inr u"
    by (auto simp: bnd_eq_Inr guard_def split: option.splits)
  show ?case
  proof (cases "J = I")
    case True
    with g c assms(3,4) show ?thesis by simp
  next
    case False
    with Cons.prems(2) have "I \<in> set rest" by simp
    from Cons.IH [OF r this] show ?thesis .
  qed
qed

lemma length_z [simp]: "length z = N_layers"
  by (simp add: z_def length_linspace)

lemma plot_loop_Inl:
  assumes "shape6 N_layers nlm"
    and "plot_ODFs x nlm (Some lm) [1, py_int (real N_layers / 2), - 1] = Inl e"
  shows "\<exists>ex. e = External ex \<and> plot_ODF_raises x nlm lm ex"
proof -
  from assms(1) have "length nlm = N_layers" by (simp add: shape6_def)
  then have "\<forall>I\<in>set [1, py_int (real N_layers / 2), - 1].
      (\<exists>row. getitem nlm I = Some row) \<and> (\<exists>zI. getitem z I = Some zI)"
    using getitem_plot_indices [of nlm] getitem_plot_indices [of z] by simp
  from plot_ODFs_Inl [OF assms(2) this] show ?thesis
    unfolding plot_ODF_raises_def by blast
qed

lemma plot_loop_Inr:
  assumes "plot_ODFs x nlm (Some lm) [1, py_int (real N_layers / 2), - 1] = Inr u"
  shows "\<not> plot_ODF_raises x nlm lm ex"
proof
  assume "plot_ODF_raises x nlm lm ex"
  then obtain I row zI where "I \<in> set [1, py_int (real N_layers / 2), - 1]"
    "getitem nlm I = Some row" "getitem z I = Some zI"
    "plot_ODF x row lm 2 (py_int (zI * (1 / 1000))) = Inl ex"
    unfolding plot_ODF_raises_def by blast
  with plot_ODFs_Inr [OF assms, of I row zI] show False by simp
qed

lemma cell2_Inr:
  fixes x :: "('e, 'o) library"
  assumes "cell2 x nlm = Inr r"
  shows "\<not> cell2_raises x nlm ex \<and> \<not> cell2_unusable x nlm"
proof -
  from assms obtain new lstack get returns v eigvals e1 e2 e3 a2 plot lz p plt w where
    i: "import_layerstack x = Inr ()" "import_plottools x = Inr ()"
    and n: "LayerStack x = Some new"
    and l: "new nlm z N_frames [epsa] [epsc] [sigma] = Inr lstack"
    and g: "get_returns x lstack = Some get" "get E0 freq alpha = Inr returns"
    and b: "get_eigenbasis x lstack = Some (Inr v)"
    and u: "unpack5 v = (Inr (eigvals, e1, e2, e3, a2) :: 'e fault + _)"
    and pl: "plot_returns x = Some plot" "stack_z x lstack = Some lz"
      "plot lz returns a2 eigvals = Inr p"
    and f: "unpack_first p = (Inr plt :: 'e fault + _)"
    and s: "plt_show x plt = Some (Inr w)"
    unfolding cell2_def by (auto simp: bnd_eq_Inr)
  show ?thesis
    unfolding cell2_raises_def cell2_unusable_def
    using i n l g b u pl f s by auto
qed

lemma cell2_Inl:
  fixes x :: "('e, 'o) library"
  assumes "cell2 x nlm = Inl e"
  shows "(\<exists>ex. e = External ex \<and> cell2_raises x nlm ex) \<or>
         ((e = ValueError \<or> e = TypeError \<or> e = AttributeError \<or> e = NameError) \<and>
          cell2_unusable x nlm)"
proof (cases "import_layerstack x")
  case (Inl ex)
  with assms  have "e = External ex"
    by (simp add: cell2_def)
  moreover from Inl  have "cell2_raises x nlm ex"
    unfolding cell2_raises_def by blast
  ultimately show ?thesis by blast
next
  case i1: (Inr u1)
  show ?thesis
  proof (cases "import_plottools x")
    case (Inl ex)
    with assms i1 have "e = External ex"
      by (simp add: cell2_def)
    moreover from Inl i1 have "cell2_raises x nlm ex"
      unfolding cell2_raises_def by blast
    ultimately show ?thesis by blast
  next
    case i2: (Inr u2)
    show ?thesis
    proof (cases "LayerStack x")
      case None
      with assms i1 i2 have "e = NameError"
        by (simp add: cell2_def)
      moreover from None i1 i2 have "cell2_unusable x nlm"
        unfolding cell2_unusable_def by blast
      ultimately show ?thesis by blast
    next
      case n: (Some new)
      show ?thesis
      proof (cases "new nlm z N_frames [epsa] [epsc] [sigma]")
        case (Inl ex)
        with assms i1 i2 n have "e = External ex"
          by (simp add: cell2_def)
        moreover from Inl i1 i2 n have "cell2_raises x nlm ex"
          unfolding cell2_raises_def by blast
        ultimately show ?thesis by blast
      next
        case l: (Inr lstack)
        show ?thesis
        proof (cases "get_returns x lstack")
          case None
          with assms i1 i2 n l have "e = AttributeError"
            by (simp add: cell2_def)
          moreover from None i1 i2 n l have "cell2_unusable x nlm"
            unfolding cell2_unusable_def by blast
          ultimately show ?thesis by blast
        next
          case g: (Some get)
          show ?thesis
          proof (cases "get E0 freq alpha")
            case (Inl ex)
            with assms i1 i2 n l g have "e = External ex"
              by (simp add: cell2_def)
            moreover from Inl i1 i2 n l g have "cell2_raises x nlm ex"
              unfolding cell2_raises_def by blast
            ultimately show ?thesis by blast
          next
            case r: (Inr returns)
            show ?thesis
            proof (cases "get_eigenbasis x lstack")
              case None
              with assms i1 i2 n l g r have "e = AttributeError"
                by (simp add: cell2_def)
              moreover from None i1 i2 n l g r have "cell2_unusable x nlm"
                unfolding cell2_unusable_def by blast
              ultimately show ?thesis by blast
            next
              case b: (Some basis)
              show ?thesis
              proof (cases "basis")
                case (Inl ex)
                with assms i1 i2 n l g r b have "e = External ex"
                  by (simp add: cell2_def)
                moreover from Inl i1 i2 n l g r b have "cell2_raises x nlm ex"
                  unfolding cell2_raises_def by blast
                ultimately show ?thesis by blast
              next
                case bv: (Inr v)
                show ?thesis
                proof (cases "unpack5 v :: 'e fault + _")
                  case (Inl e')
                  with assms i1 i2 n l g r b bv have "e = e'"
                    by (simp add: cell2_def)
                  with Inl have fails: "unpack5 v = (Inl e :: 'e fault + _)"
                    by simp
                  from unpack5_Inl [OF fails] have "e = ValueError \<or> e = TypeError" .
                  moreover from fails i1 i2 n l g r b bv have "cell2_unusable x nlm"
                    unfolding cell2_unusable_def by blast
                  ultimately show ?thesis by blast
                next
                  case (Inr q)
                  obtain eigvals e1 e2 e3 a2 where q: "q = (eigvals, e1, e2, e3, a2)"
                    by (cases q) auto
                  note u = Inr [unfolded q]
                  show ?thesis
                  proof (cases "plot_returns x")
                    case None
                    with assms i1 i2 n l g r b bv u have "e = NameError"
                      by (simp add: cell2_def)
                    moreover from None i1 i2 n l g r b bv u have "cell2_unusable x nlm"
                      unfolding cell2_unusable_def by blast
                    ultimately show ?thesis by blast
                  next
                    case p: (Some plot)
                    show ?thesis
                    proof (cases "stack_z x lstack")
                      case None
                      with assms i1 i2 n l g r b bv u p have "e = AttributeError"
                        by (simp add: cell2_def)
                      moreover from None i1 i2 n l g r b bv u p have "cell2_unusable x nlm"
                        unfolding cell2_unusable_def by blast
                      ultimately show ?thesis by blast
                    next
                      case z: (Some lz)
                      show ?thesis
                      proof (cases "plot lz returns a2 eigvals")
                        case (Inl ex)
                        with assms i1 i2 n l g r b bv u p z have "e = External ex"
                          by (simp add: cell2_def)
                        moreover from Inl i1 i2 n l g r b bv u p z have "cell2_raises x nlm ex"
                          unfolding cell2_raises_def by blast
                        ultimately show ?thesis by blast
                      next
                        case c: (Inr pv)
                        show ?thesis
                        proof (cases "unpack_first pv :: 'e fault + _")
                          case (Inl e')
                          with assms i1 i2 n l g r b bv u p z c have "e = e'"
                            by (simp add: cell2_def)
                          with Inl have fails: "unpack_first pv = (Inl e :: 'e fault + _)"
                            by simp
                          from unpack_first_Inl [OF fails] have "e = ValueError \<or> e = TypeError" .
                          moreover from fails i1 i2 n l g r b bv u p z c have "cell2_unusable x nlm"
                            unfolding cell2_unusable_def by blast
                          ultimately show ?thesis by blast
                        next
                          case f: (Inr plt)
                          show ?thesis
                          proof (cases "plt_show x plt")
                            case None
                            with assms i1 i2 n l g r b bv u p z c f have "e = AttributeError"
                              by (simp add: cell2_def)
                            moreover from None i1 i2 n l g r b bv u p z c f have "cell2_unusable x nlm"
                              unfolding cell2_unusable_def by blast
                            ultimately show ?thesis by blast
                          next
                            case s: (Some shown)
                            show ?thesis
                            proof (cases "shown")
                              case (Inl ex)
                              with assms i1 i2 n l g r b bv u p z c f s have "e = External ex"
                                by (simp add: cell2_def)
                              moreover from Inl i1 i2 n l g r b bv u p z c f s have "cell2_raises x nlm ex"
                                unfolding cell2_raises_def by blast
                              ultimately show ?thesis by blast
                            next
                              case sv: (Inr w)
                              show ?thesis
                              using assms i1 i2 n l g r b bv u p z c f s sv
                                by (simp add: cell2_def)
                            qed
                          qed
                        qed
                      qed
                    qed
                  qed
                qed
              qed
            qed
          qed
        qed
      qed
    qed
  qed
qed

subsection \<open>Exceptions\<close>

lemma construct_raw_total:
  fixes f :: "real list list \<Rightarrow> 'e + 'o pyval"
  assumes "\<And>m. \<exists>v w l. f m = Inr v \<and> line50 v = (Inr (w, l) :: 'e fault + _)"
  shows "\<exists>nlm lm. construct_raw f = Inr (nlm, Some lm)"
proof (cases "construct_raw f")
  case (Inl e)
  from construct_raw_Inl [OF this] obtain k where
    "(\<exists>ex. f (tensor (lambdavec ! k)) = Inl ex \<and> e = External ex) \<or>
     (\<exists>v. f (tensor (lambdavec ! k)) = Inr v \<and> line50 v = Inl e)"
    by blast
  with assms [of "tensor (lambdavec ! k)"] show ?thesis by auto
next
  case (Inr s)
  obtain nlm lm where "s = (nlm, lm)" by (cases s)
  with Inr construct_raw_Inr [of f nlm lm] show ?thesis by auto
qed

lemma notebook_Inr:
  fixes x :: "('e, 'o) library"
  assumes "notebook x = Inr r"
  shows "\<not> external_raises x ex \<and> \<not> unusable x"
proof -
  let ?f = "c2_to_nlm x"
  from assms obtain nlm lm0 ret where c1: "cell1 x = Inr (nlm, lm0)"
    and c2: "cell2 x nlm = Inr ret"
    by (auto simp: notebook_def bnd_eq_Inr)
  from c1 obtain u where imp: "import_numpy x = Inr ()" "import_c2_to_nlm x = Inr ()"
      "import_plot_ODF x = Inr ()"
    and con0: "construct_raw ?f = Inr (nlm, lm0)"
    and pl0: "plot_ODFs x nlm lm0 [1, py_int (real N_layers / 2), - 1] = Inr u"
    by (auto simp: cell1_def bnd_eq_Inr)
  from construct_raw_Inr [OF con0] obtain lm where lm: "lm0 = Some lm"
    and ok: "\<forall>k<N_layers. \<exists>v w l. ?f (tensor (lambdavec ! k)) = Inr v \<and>
        line50 v = (Inr (w, l) :: 'e fault + _)"
    by blast
  from con0 lm have con: "construct_raw ?f = Inr (nlm, Some lm)" by simp
  from pl0 lm have pl: "plot_ODFs x nlm (Some lm) [1, py_int (real N_layers / 2), - 1] = Inr u"
    by simp
  have loop: "\<exists>v w l. ?f (c ! ii) = Inr v \<and> line50 v = (Inr (w, l) :: 'e fault + _)"
    if "(c2 :: 'e fault + real list list list) = Inr c" "ii < N_layers" for c ii
  proof -
    from that(1) have "c = map tensor lambdavec" by (simp add: c2_tensor)
    with that(2) ok show ?thesis by simp
  qed
  have rest: "\<not> plot_ODF_raises x nlm' lm' ex \<and> \<not> cell2_raises x nlm' ex \<and>
      \<not> cell2_unusable x nlm'"
    if "construct_raw ?f = Inr (nlm', Some lm')" for nlm' lm'
  proof -
    from that con have "nlm' = nlm" "lm' = lm" by simp_all
    with plot_loop_Inr [OF pl] cell2_Inr [OF c2] show ?thesis by blast
  qed
  have "\<not> external_raises x ex"
  proof
    assume "external_raises x ex"
    then consider "import_numpy x = Inl ex" | "import_c2_to_nlm x = Inl ex"
      | c ii where "(c2 :: 'e fault + real list list list) = Inr c" "ii < N_layers"
          "?f (c ! ii) = Inl ex"
      | "import_plot_ODF x = Inl ex"
      | nlm' lm' where "construct_raw ?f = Inr (nlm', Some lm')"
          "plot_ODF_raises x nlm' lm' ex \<or> cell2_raises x nlm' ex"
      unfolding external_raises_def by blast
    then show False
    proof cases
      case 1
      with imp show ?thesis by simp
    next
      case 2
      with imp show ?thesis by simp
    next
      case 3
      with loop [OF 3(1,2)] show ?thesis by auto
    next
      case 4
      with imp show ?thesis by simp
    next
      case 5
      with rest [OF 5(1)] show ?thesis by blast
    qed
  qed
  moreover have "\<not> unusable x"
  proof
    assume "unusable x"
    then consider c ii v e where "(c2 :: 'e fault + real list list list) = Inr c" "ii < N_layers"
          "?f (c ! ii) = Inr v" "line50 v = (Inl e :: 'e fault + _)"
      | nlm' lm' where "construct_raw ?f = Inr (nlm', Some lm')" "cell2_unusable x nlm'"
      unfolding unusable_def by blast
    then show False
    proof cases
      case 1
      with loop [OF 1(1,2)] show ?thesis by auto
    next
      case 2
      with rest [OF 2(1)] show ?thesis by blast
    qed
  qed
  ultimately show ?thesis ..
qed

lemma notebook_Inl:
  fixes x :: "('e, 'o) library"
  assumes nb: "notebook x = Inl e"
  shows "(\<exists>ex. e = External ex \<and> external_raises x ex) \<or>
         ((e = ValueError \<or> e = TypeError \<or> e = AttributeError \<or> e = NameError) \<and>
          unusable x)"
proof (cases "import_numpy x")
  case (Inl ex)
  with nb have "e = External ex" by (simp add: notebook_def cell1_def)
  moreover from Inl have "external_raises x ex" by (simp add: external_raises_def)
  ultimately show ?thesis by blast
next
  case i1: (Inr u1)
  show ?thesis
  proof (cases "import_c2_to_nlm x")
    case (Inl ex)
    with nb i1 have "e = External ex" by (simp add: notebook_def cell1_def)
    moreover from Inl have "external_raises x ex" by (simp add: external_raises_def)
    ultimately show ?thesis by blast
  next
    case i2: (Inr u2)
    let ?f = "c2_to_nlm x"
    show ?thesis
    proof (cases "construct_raw ?f")
      case (Inl e')
      with nb i1 i2 have "e' = e" by (simp add: notebook_def cell1_def)
      with Inl have "construct_raw ?f = Inl e" by simp
      from construct_raw_Inl [OF this] obtain k where k: "k < N_layers"
        and r: "(\<exists>ex. ?f (tensor (lambdavec ! k)) = Inl ex \<and> e = External ex) \<or>
          (\<exists>v. ?f (tensor (lambdavec ! k)) = Inr v \<and> line50 v = Inl e)"
        by blast
      have c: "(c2 :: 'e fault + real list list list) = Inr (map tensor lambdavec)"
        by (rule c2_tensor)
      from k have t: "map tensor lambdavec ! k = tensor (lambdavec ! k)" by simp
      from r show ?thesis
      proof
        assume "\<exists>ex. ?f (tensor (lambdavec ! k)) = Inl ex \<and> e = External ex"
        then obtain ex where "?f (map tensor lambdavec ! k) = Inl ex" "e = External ex"
          using t by auto
        with c k have "external_raises x ex"
          unfolding external_raises_def by blast
        with \<open>e = External ex\<close> show ?thesis by blast
      next
        assume "\<exists>v. ?f (tensor (lambdavec ! k)) = Inr v \<and> line50 v = Inl e"
        then obtain v where v: "?f (map tensor lambdavec ! k) = Inr v"
          and l: "line50 v = (Inl e :: 'e fault + _)"
          using t by auto
        from c k v l have "unusable x"
          unfolding unusable_def by blast
        with line50_Inl [OF l] show ?thesis by blast
      qed
    next
      case (Inr s)
      obtain nlm lm0 where s: "s = (nlm, lm0)" by (cases s)
      with Inr have con0: "construct_raw ?f = Inr (nlm, lm0)" by simp
      from construct_raw_Inr [OF con0] obtain lm where sh: "shape6 N_layers nlm"
        and "lm0 = Some lm"
        by blast
      with con0 have con: "construct_raw ?f = Inr (nlm, Some lm)" by simp
      show ?thesis
      proof (cases "import_plot_ODF x")
        case (Inl ex)
        with nb i1 i2 con have "e = External ex" by (simp add: notebook_def cell1_def)
        moreover from Inl have "external_raises x ex" by (simp add: external_raises_def)
        ultimately show ?thesis by blast
      next
        case i3: (Inr u3)
        show ?thesis
        proof (cases "plot_ODFs x nlm (Some lm) [1, py_int (real N_layers / 2), - 1]")
          case (Inl e')
          with nb i1 i2 i3 con have "e' = e" by (simp add: notebook_def cell1_def)
          with Inl have "plot_ODFs x nlm (Some lm) [1, py_int (real N_layers / 2), - 1] = Inl e"
            by (simp only:)
          from plot_loop_Inl [OF sh this] obtain ex where
            "e = External ex" "plot_ODF_raises x nlm lm ex"
            by (elim exE conjE)
          with con show ?thesis
            unfolding external_raises_def by blast
        next
          case (Inr u)
          with nb i1 i2 i3 con
          have "bnd (cell2 x nlm) (\<lambda>returns. Inr (nlm, Some lm, returns)) = Inl e"
            by (simp add: notebook_def cell1_def)
          then have "cell2 x nlm = Inl e"
            by (simp add: bnd_eq_Inl)
          from cell2_Inl [OF this] con show ?thesis
            unfolding external_raises_def unusable_def by blast
        qed
      qed
    qed
  qed
qed

lemma line50_six:
  "line50 (Seq [Seq [Scalar 1, Scalar 1, Scalar 1, Scalar 1, Scalar 1, Scalar 1], Object ()])
     = (Inr ([1, 1, 1, 1, 1, 1], Object ()) :: 'e fault + _)"
  using line50_raw [of "(1, 1, 1, 1, 1, 1)" "Object ()"] by simp

lemma line50_five:
  "line50 (Seq [Seq [Scalar 1, Scalar 1, Scalar 1, Scalar 1, Scalar 1], Object ()])
     = (Inl ValueError :: 'e fault + (complex list \<times> unit pyval))"
proof -
  have "as_row (Seq (map Scalar [1, 1, 1, 1, 1]) :: unit pyval)
      = (Inr [1, 1, 1, 1, 1] :: 'e fault + _)"
    by (rule as_row_scalars)
  then have "as_row (Seq [Scalar 1, Scalar 1, Scalar 1, Scalar 1, Scalar 1] :: unit pyval)
      = (Inr [1, 1, 1, 1, 1] :: 'e fault + _)"
    by simp
  then show ?thesis
    by (simp add: line50_def broadcast_def)
qed

lemma quiet_library_runs:
  "\<not> external_raises quiet_library ex" "\<not> unusable quiet_library"
proof -
  have "\<exists>nlm lm. construct_raw (c2_to_nlm quiet_library) = Inr (nlm, Some lm)"
    by (rule construct_raw_total) (simp add: quiet_library_def line50_six)
  then obtain nlm lm where con: "construct_raw (c2_to_nlm quiet_library) = Inr (nlm, Some lm)"
    by blast
  have "cell1 quiet_library = Inr (nlm, Some lm)"
  proof (cases "plot_ODFs quiet_library nlm (Some lm) [1, py_int (real N_layers / 2), - 1]")
    case (Inl e)
    from construct_raw_Inr [OF con] have "shape6 N_layers nlm" by blast
    from plot_loop_Inl [OF this Inl] show ?thesis
      by (auto simp: plot_ODF_raises_def quiet_library_def)
  next
    case (Inr u)
    with con show ?thesis
      by (simp add: cell1_def quiet_library_def)
  qed
  moreover have "cell2 quiet_library nlm = Inr (Object ())"
    by (simp add: cell2_def quiet_library_def)
  ultimately have "notebook quiet_library = Inr (nlm, Some lm, Object ())"
    by (simp add: notebook_def)
  from notebook_Inr [OF this]
  show "\<not> external_raises quiet_library ex" "\<not> unusable quiet_library"
    by blast+
qed

lemma construct_raw_quiet:
  "\<exists>nlm lm. construct_raw (c2_to_nlm quiet_library) = Inr (nlm, Some lm)"
  by (rule construct_raw_total) (simp add: quiet_library_def line50_six)

lemma failing_library_raises:
  "external_raises failing_library ex \<longleftrightarrow> ex = ''LayerStack''"
  "\<not> unusable failing_library"
proof -
  have f: "c2_to_nlm failing_library = c2_to_nlm quiet_library"
    by (simp add: failing_library_def)
  from construct_raw_quiet obtain nlm lm where
    con: "construct_raw (c2_to_nlm failing_library) = Inr (nlm, Some lm)"
    unfolding f by blast
  have c2r: "cell2_raises failing_library nlm' ex \<longleftrightarrow> ex = ''LayerStack''" for nlm' ex
    by (auto simp: cell2_raises_def failing_library_def quiet_library_def)
  have c2u: "\<not> cell2_unusable failing_library nlm'" for nlm'
    by (auto simp: cell2_unusable_def failing_library_def quiet_library_def)
  have pl: "\<not> plot_ODF_raises failing_library nlm' lm' ex" for nlm' lm' ex
    by (auto simp: plot_ODF_raises_def failing_library_def quiet_library_def)
  have imp: "import_numpy failing_library = Inr ()" "import_c2_to_nlm failing_library = Inr ()"
    "import_plot_ODF failing_library = Inr ()"
    by (simp_all add: failing_library_def quiet_library_def)
  have noraise: "c2_to_nlm failing_library m \<noteq> Inl ex" for m ex
    by (simp add: failing_library_def quiet_library_def)
  have ok: "line50 v = (Inr ([1, 1, 1, 1, 1, 1], Object ()) :: string fault + _)"
    if "c2_to_nlm failing_library m = Inr v" for m v
    using that line50_six by (auto simp: failing_library_def quiet_library_def)
  show "external_raises failing_library ex \<longleftrightarrow> ex = ''LayerStack''"
    unfolding external_raises_def using con by (auto simp: imp noraise c2r pl)
  show "\<not> unusable failing_library"
    unfolding unusable_def using ok by (auto simp: c2u)
qed

lemma five_library_raises:
  "\<not> external_raises five_library ex" "unusable five_library"
  "notebook five_library = Inl ValueError"
proof -
  let ?f = "c2_to_nlm five_library"
  let ?v = "Seq [Seq [Scalar 1, Scalar 1, Scalar 1, Scalar 1, Scalar 1], Object ()]
    :: unit pyval"
  have f: "?f m = Inr ?v" for m
    by (simp add: five_library_def quiet_library_def)
  have con: "construct_raw ?f = Inl ValueError"
  proof (cases "construct_raw ?f")
    case (Inl e)
    from construct_raw_Inl [OF this] obtain k where
      "(\<exists>ex. ?f (tensor (lambdavec ! k)) = Inl ex \<and> e = External ex) \<or>
       (\<exists>v. ?f (tensor (lambdavec ! k)) = Inr v \<and> line50 v = Inl e)"
      by blast
    with f line50_five [where ?'e = string] have "e = ValueError" by auto
    with Inl show ?thesis by simp
  next
    case (Inr s)
    obtain nlm lm where "s = (nlm, lm)" by (cases s)
    with Inr construct_raw_Inr [of ?f nlm lm] have
      "\<forall>k<N_layers. \<exists>v w l. ?f (tensor (lambdavec ! k)) = Inr v \<and>
         line50 v = (Inr (w, l) :: string fault + _)"
      by simp
    moreover have "(0::nat) < N_layers" by (simp add: N_layers_def)
    ultimately have "\<exists>w l. line50 ?v = (Inr (w, l) :: string fault + _)"
      using f by auto
    with line50_five [where ?'e = string] show ?thesis by simp
  qed
  have imp: "import_numpy five_library = Inr ()" "import_c2_to_nlm five_library = Inr ()"
    "import_plot_ODF five_library = Inr ()"
    by (simp_all add: five_library_def quiet_library_def)
  show "notebook five_library = Inl ValueError"
    by (simp add: notebook_def cell1_def imp con)
  show "\<not> external_raises five_library ex"
    unfolding external_raises_def by (simp add: imp con f)
  have c: "(c2 :: string fault + real list list list) = Inr (map tensor lambdavec)"
    by (rule c2_tensor)
  have "(0::nat) < N_layers" by (simp add: N_layers_def)
  with c f [of "map tensor lambdavec ! 0"] line50_five [where ?'e = string]
  show "unusable five_library"
    unfolding unusable_def by blast
qed

text \<open>
  C7, as stated, does not hold: when \<^verbatim>\<open>c2_to_nlm\<close> hands back five coefficients
  instead of six, no import and no external call raises, and the notebook ends in the
  \<open>ValueError\<close> of its own line 50.
\<close>

theorem five_coefficients_counterexample:
  "notebook five_library = Inl ValueError \<and> \<not> (\<exists>ex. external_raises five_library ex)"
  using five_library_raises(1,3) by blast

text \<open>
  C7, amended. The notebook handles no exception and validates nothing. If it ends in
  an exception, that exception was raised by one of its imports or external calls and
  reaches the caller as it is, or it is a \<open>ValueError\<close>, \<open>TypeError\<close>, \<open>AttributeError\<close>
  or \<open>NameError\<close> of a statement of the notebook that the library has handed something
  it cannot use. If an import or an external call raises, or the library hands the
  script something it cannot use, the notebook ends in an exception. So the notebook
  raises if and only if one or the other happens, and with a library that hands back
  only what the script can use, if and only if an import or an external call raises.
\<close>

theorem notebook_raises_iff:
  fixes x :: "('e, 'o) library"
  shows "(\<forall>e. notebook x = Inl e \<longrightarrow>
            (\<exists>ex. e = External ex \<and> external_raises x ex) \<or>
            ((e = ValueError \<or> e = TypeError \<or> e = AttributeError \<or> e = NameError) \<and>
             unusable x)) \<and>
         (\<forall>ex. external_raises x ex \<longrightarrow> (\<exists>e. notebook x = Inl e)) \<and>
         (unusable x \<longrightarrow> (\<exists>e. notebook x = Inl e)) \<and>
         ((\<exists>e. notebook x = Inl e) \<longleftrightarrow> (\<exists>ex. external_raises x ex) \<or> unusable x) \<and>
         (\<not> unusable x \<longrightarrow> ((\<exists>e. notebook x = Inl e) \<longleftrightarrow> (\<exists>ex. external_raises x ex)))"
proof -
  have only: "(\<exists>ex. e = External ex \<and> external_raises x ex) \<or>
      ((e = ValueError \<or> e = TypeError \<or> e = AttributeError \<or> e = NameError) \<and> unusable x)"
    if "notebook x = Inl e" for e
    using that by (rule notebook_Inl)
  have raises: "\<exists>e. notebook x = Inl e" if "external_raises x ex \<or> unusable x" for ex
  proof (cases "notebook x")
    case (Inl e)
    then show ?thesis by blast
  next
    case (Inr r)
    from notebook_Inr [OF this, of ex] that show ?thesis by blast
  qed
  from only raises show ?thesis by blast
qed

theorem notebook_raises_iff_witness:
  "\<not> unusable quiet_library \<and> (\<exists>r. notebook quiet_library = Inr r) \<and>
   external_raises failing_library ''LayerStack'' \<and> \<not> unusable failing_library \<and>
   notebook failing_library = Inl (External ''LayerStack'') \<and>
   unusable five_library \<and> (\<exists>e. notebook five_library = Inl e)"
proof -
  note q = notebook_raises_iff [of quiet_library]
  have "\<not> (\<exists>e. notebook quiet_library = Inl e)"
    using q quiet_library_runs by blast
  then have qr: "\<exists>r. notebook quiet_library = Inr r"
    by (cases "notebook quiet_library") auto
  note f = notebook_raises_iff [of failing_library]
  have fr: "external_raises failing_library ''LayerStack''"
    by (simp add: failing_library_raises)
  with f obtain e where e: "notebook failing_library = Inl e"
    by blast
  with f failing_library_raises(2) obtain ex where
    "e = External ex" "external_raises failing_library ex"
    by blast
  then have "e = External ''LayerStack''"
    by (simp add: failing_library_raises)
  with e have fn: "notebook failing_library = Inl (External ''LayerStack'')"
    by simp
  from notebook_raises_iff [of five_library] five_library_raises(2)
  have "\<exists>e. notebook five_library = Inl e"
    by blast
  with qr fr fn quiet_library_runs(2) failing_library_raises(2) five_library_raises(2)
  show ?thesis by blast
qed

end
